theory Spec2Isabelle
  imports Main "HOL-Library.Sublist" "HOL-Library.Monad_Syntax"
begin

section \<open>Python values shared by the modules\<close>

subsection \<open>Exceptions\<close>

text \<open>
  Exceptions are values.  Each constructor is a subclass of Python's \<^verbatim>\<open>Exception\<close> and
  carries the text that \<^verbatim>\<open>str(e)\<close> returns.  \<open>Exception\<close> stands for whatever an external
  collaborator (the model client, the file system, the database) raises.  A function that
  can raise returns \<open>py_exception + 'a\<close>, with \<open>Inl\<close> for the exception that leaves it.
\<close>

datatype py_exception =
    AttributeError string
  | TypeError string
  | KeyError string
  | JSONDecodeError string
  | ValidationError string
  | UnboundLocalError string
  | Exception string

fun str_of :: "py_exception \<Rightarrow> string" where
  "str_of (AttributeError m) = m"
| "str_of (TypeError m) = m"
| "str_of (KeyError m) = m"
| "str_of (JSONDecodeError m) = m"
| "str_of (ValidationError m) = m"
| "str_of (UnboundLocalError m) = m"
| "str_of (Exception m) = m"

subsection \<open>Strings\<close>

text \<open>
  A string is a list of characters with codes below 256.  \<^verbatim>\<open>str.strip()\<close> removes the
  characters for which \<^verbatim>\<open>str.isspace\<close> holds from both ends; \<^verbatim>\<open>s[n:]\<close> is \<open>drop n s\<close> and
  \<^verbatim>\<open>s[:-n]\<close> is \<open>drop_last n s\<close>.
\<close>

definition py_isspace :: "char \<Rightarrow> bool" where
  "py_isspace c \<longleftrightarrow> (of_char c :: nat) \<in> {9, 10, 11, 12, 13, 28, 29, 30, 31, 32, 133, 160}"

definition strip :: "string \<Rightarrow> string" where
  "strip s = rev (dropWhile py_isspace (rev (dropWhile py_isspace s)))"

definition startswith :: "string \<Rightarrow> string \<Rightarrow> bool" where
  "startswith s p \<longleftrightarrow> prefix p s"

definition endswith :: "string \<Rightarrow> string \<Rightarrow> bool" where
  "endswith s p \<longleftrightarrow> suffix p s"

definition drop_last :: "nat \<Rightarrow> string \<Rightarrow> string" where
  "drop_last n s = take (length s - n) s"

subsection \<open>JSON values and json.loads\<close>

text \<open>
  The values \<^verbatim>\<open>json.loads\<close> returns.  An object keeps its members in the order of the
  text; a lookup takes the last member with the key, as the dictionary built from the pairs
  does.  A number written with a fraction or an exponent, and \<^verbatim>\<open>NaN\<close> and the infinities,
  are kept as their text.
\<close>

datatype json =
    JNull
  | JBool bool
  | JInt int
  | JFloat string
  | JString string
  | JArray "json list"
  | JObject "(string \<times> json) list"

text \<open>
  The decoder of the standard library, after \<^verbatim>\<open>json/decoder.py\<close> and \<^verbatim>\<open>json/scanner.py\<close>:
  \<open>scan_once\<close> reads one value at the head of the text and returns it with the rest of the
  text, \<open>None\<close> where Python raises \<^verbatim>\<open>JSONDecodeError\<close>.  The first argument is fuel for
  the recursion: a call passes one less to the value nested in it and to the members that
  follow.  Each of these stands at least as many characters into the text, so the fuel of
  \<open>json_loads\<close>, more than the length of the text, is not used up.  The \<^verbatim>\<open>\u\<close> escape has
  no counterpart here (a string has no character above 255) and is reported as an error;
  the text of the error message is not modelled.  The functions of the repository take the
  decoder as an argument \<open>loads\<close>, so what is proved for every \<open>loads\<close> does not depend on
  this model; it is used to run them on given texts.
\<close>

definition json_ws :: "char \<Rightarrow> bool" where
  "json_ws c \<longleftrightarrow> c \<in> set [CHR '' '', CHR 0x09, CHR 0x0A, CHR 0x0D]"

definition skip_ws :: "string \<Rightarrow> string" where
  "skip_ws s = dropWhile json_ws s"

definition is_digit :: "char \<Rightarrow> bool" where
  "is_digit c \<longleftrightarrow> c \<in> set ''0123456789''"

definition digit_val :: "char \<Rightarrow> nat" where
  "digit_val c = of_char c - 48"

definition nat_of_digits :: "string \<Rightarrow> nat" where
  "nat_of_digits ds = foldl (\<lambda>a c. 10 * a + digit_val c) 0 ds"

definition unescape :: "char \<Rightarrow> char option" where
  "unescape c =
     (if c = CHR 0x22 then Some (CHR 0x22)
      else if c = CHR 0x5C then Some (CHR 0x5C)
      else if c = CHR ''/'' then Some (CHR ''/'')
      else if c = CHR ''b'' then Some (CHR 0x08)
      else if c = CHR ''f'' then Some (CHR 0x0C)
      else if c = CHR ''n'' then Some (CHR 0x0A)
      else if c = CHR ''r'' then Some (CHR 0x0D)
      else if c = CHR ''t'' then Some (CHR 0x09)
      else None)"

fun scanstring :: "string \<Rightarrow> (string \<times> string) option" where
  "scanstring [] = None"
| "scanstring (c # cs) =
     (if c = CHR 0x22 then Some ([], cs)
      else if c = CHR 0x5C then
        (case cs of
           [] \<Rightarrow> None
         | e # cs' \<Rightarrow>
            (case unescape e of
               None \<Rightarrow> None
             | Some ch \<Rightarrow> (case scanstring cs' of
                             None \<Rightarrow> None
                           | Some (str, rest) \<Rightarrow> Some (ch # str, rest))))
      else if (of_char c :: nat) < 32 then None
      else (case scanstring cs of
              None \<Rightarrow> None
            | Some (str, rest) \<Rightarrow> Some (c # str, rest)))"

definition scan_digits :: "string \<Rightarrow> string \<times> string" where
  "scan_digits s = (takeWhile is_digit s, dropWhile is_digit s)"

definition scan_int_part :: "string \<Rightarrow> (string \<times> string) option" where
  "scan_int_part s =
     (case s of
        [] \<Rightarrow> None
      | c # cs \<Rightarrow> if c = CHR ''0'' then Some (''0'', cs)
                  else if is_digit c then Some (scan_digits s)
                  else None)"

definition scan_frac :: "string \<Rightarrow> string \<times> string" where
  "scan_frac s =
     (case s of
        c # cs \<Rightarrow> if c = CHR ''.'' \<and> fst (scan_digits cs) \<noteq> []
                  then (c # fst (scan_digits cs), snd (scan_digits cs)) else ([], s)
      | [] \<Rightarrow> ([], s))"

definition scan_exp :: "string \<Rightarrow> string \<times> string" where
  "scan_exp s =
     (case s of
        c # cs \<Rightarrow>
          if c = CHR ''e'' \<or> c = CHR ''E'' then
            (let (sign, r) = (case cs of
                                d # ds \<Rightarrow> if d = CHR ''+'' \<or> d = CHR ''-'' then ([d], ds) else ([], cs)
                              | [] \<Rightarrow> ([], cs))
             in if fst (scan_digits r) \<noteq> []
                then (c # sign @ fst (scan_digits r), snd (scan_digits r)) else ([], s))
          else ([], s)
      | [] \<Rightarrow> ([], s))"

definition scan_number :: "string \<Rightarrow> (json \<times> string) option" where
  "scan_number s =
     (let (sign, r0) = (case s of c # cs \<Rightarrow> if c = CHR ''-'' then (''-'', cs) else ([], s)
                                 | [] \<Rightarrow> ([], s))
      in case scan_int_part r0 of
           None \<Rightarrow> None
         | Some (ip, r1) \<Rightarrow>
            (let (frac, r2) = scan_frac r1; (ex, r3) = scan_exp r2
             in if frac = [] \<and> ex = []
                then Some (JInt (if sign = [] then int (nat_of_digits ip) else - int (nat_of_digits ip)), r1)
                else Some (JFloat (sign @ ip @ frac @ ex), r3)))"

definition scan_constant :: "string \<Rightarrow> (json \<times> string) option" where
  "scan_constant s =
     (if startswith s ''NaN'' then Some (JFloat ''NaN'', drop 3 s)
      else if startswith s ''Infinity'' then Some (JFloat ''Infinity'', drop 8 s)
      else if startswith s ''-Infinity'' then Some (JFloat ''-Infinity'', drop 9 s)
      else None)"

fun scan_once :: "nat \<Rightarrow> string \<Rightarrow> (json \<times> string) option"
and scan_array :: "nat \<Rightarrow> string \<Rightarrow> (json list \<times> string) option"
and scan_object :: "nat \<Rightarrow> string \<Rightarrow> ((string \<times> json) list \<times> string) option" where
  "scan_once 0 s = None"
| "scan_once (Suc k) s =
     (case s of
        [] \<Rightarrow> None
      | c # cs \<Rightarrow>
         if c = CHR 0x22 then
           (case scanstring cs of None \<Rightarrow> None | Some (str, rest) \<Rightarrow> Some (JString str, rest))
         else if c = CHR ''{'' then
           (case skip_ws cs of
              [] \<Rightarrow> None
            | d # ds \<Rightarrow>
               if d = CHR ''}'' then Some (JObject [], ds)
               else if d = CHR 0x22 then
                 (case scan_object k (d # ds) of
                    None \<Rightarrow> None
                  | Some (ms, rest) \<Rightarrow> Some (JObject ms, rest))
               else None)
         else if c = CHR ''['' then
           (case skip_ws cs of
              [] \<Rightarrow> None
            | d # ds \<Rightarrow>
               if d = CHR '']'' then Some (JArray [], ds)
               else (case scan_array k (d # ds) of
                       None \<Rightarrow> None
                     | Some (vs, rest) \<Rightarrow> Some (JArray vs, rest)))
         else if startswith s ''null'' then Some (JNull, drop 4 s)
         else if startswith s ''true'' then Some (JBool True, drop 4 s)
         else if startswith s ''false'' then Some (JBool False, drop 5 s)
         else (case scan_number s of
                 Some r \<Rightarrow> Some r
               | None \<Rightarrow> scan_constant s))"
| "scan_array 0 s = None"
| "scan_array (Suc k) s =
     (case scan_once k s of
        None \<Rightarrow> None
      | Some (v, rest) \<Rightarrow>
         (case skip_ws rest of
            [] \<Rightarrow> None
          | d # ds \<Rightarrow>
             if d = CHR '']'' then Some ([v], ds)
             else if d = CHR '','' then
               (case scan_array k (skip_ws ds) of
                  None \<Rightarrow> None
                | Some (vs, rest') \<Rightarrow> Some (v # vs, rest'))
             else None))"
| "scan_object 0 s = None"
| "scan_object (Suc k) s =
     (case s of
        [] \<Rightarrow> None
      | q # cs \<Rightarrow>
         if q \<noteq> CHR 0x22 then None
         else
         (case scanstring cs of
            None \<Rightarrow> None
          | Some (key, r1) \<Rightarrow>
             (case skip_ws r1 of
                [] \<Rightarrow> None
              | c # r2 \<Rightarrow>
                 if c \<noteq> CHR '':'' then None
                 else
                 (case scan_once k (skip_ws r2) of
                    None \<Rightarrow> None
                  | Some (v, r3) \<Rightarrow>
                     (case skip_ws r3 of
                        [] \<Rightarrow> None
                      | d # ds \<Rightarrow>
                         if d = CHR ''}'' then Some ([(key, v)], ds)
                         else if d = CHR '','' then
                           (case scan_object k (skip_ws ds) of
                              None \<Rightarrow> None
                            | Some (ms, rest) \<Rightarrow> Some ((key, v) # ms, rest))
                         else None)))))"

definition json_loads :: "string \<Rightarrow> py_exception + json" where
  "json_loads s =
     (case scan_once (Suc (length s)) (skip_ws s) of
        None \<Rightarrow> Inl (JSONDecodeError ''invalid JSON'')
      | Some (v, rest) \<Rightarrow>
         if skip_ws rest = [] then Inr v else Inl (JSONDecodeError ''invalid JSON''))"

section \<open>design_coordinator.py\<close>

subsection \<open>class DesignSpec\<close>

record DesignSpec =
  primary_color :: string
  secondary_color :: string
  accent_color :: string
  background_color :: string
  text_color :: string
  text_secondary_color :: string
  title_font_size :: string
  content_font_size :: string
  font_family :: string
  layout_style :: string
  spacing :: string
  border_radius :: string
  use_shadows :: bool
  use_gradients :: bool
  animation_style :: string
  chart_colors :: "string list"

subsection \<open>DesignSpec(**design_dict)\<close>

text \<open>
  The constructor of the pydantic model, called with the decoded JSON value.  A value that
  is not an object cannot be unpacked with \<^verbatim>\<open>**\<close> (\<^verbatim>\<open>TypeError\<close>).  Every field is required;
  a \<^verbatim>\<open>str\<close> field takes a JSON string only, a \<^verbatim>\<open>list[str]\<close> field a JSON array of strings,
  and a \<^verbatim>\<open>bool\<close> field a JSON boolean, the integers 0 and 1 or one of pydantic's truth
  words (a number written as a float is not taken here, where pydantic takes 0.0 and
  1.0); anything else is a
  \<^verbatim>\<open>ValidationError\<close>.  Keys that are no field are ignored.  The class declares no validator
  of its own: no field is checked for its format or length.
\<close>

definition dict_get :: "(string \<times> json) list \<Rightarrow> string \<Rightarrow> json option" where
  "dict_get kvs k = map_of (rev kvs) k"

definition ascii_lower :: "char \<Rightarrow> char" where
  "ascii_lower c = (let n = (of_char c :: nat) in if 65 \<le> n \<and> n \<le> 90 then char_of (n + 32) else c)"

definition str_to_bool :: "string \<Rightarrow> bool option" where
  "str_to_bool s =
     (let l = map ascii_lower s in
      if l \<in> set [''0'', ''off'', ''f'', ''false'', ''n'', ''no''] then Some False
      else if l \<in> set [''1'', ''on'', ''t'', ''true'', ''y'', ''yes''] then Some True
      else None)"

definition field_str :: "(string \<times> json) list \<Rightarrow> string \<Rightarrow> string option" where
  "field_str kvs k = (case dict_get kvs k of Some (JString s) \<Rightarrow> Some s | _ \<Rightarrow> None)"

definition field_bool :: "(string \<times> json) list \<Rightarrow> string \<Rightarrow> bool option" where
  "field_bool kvs k =
     (case dict_get kvs k of
        Some (JBool b) \<Rightarrow> Some b
      | Some (JInt i) \<Rightarrow> (if i = 0 then Some False else if i = 1 then Some True else None)
      | Some (JString s) \<Rightarrow> str_to_bool s
      | _ \<Rightarrow> None)"

fun str_items :: "json list \<Rightarrow> string list option" where
  "str_items [] = Some []"
| "str_items (JString s # vs) = (case str_items vs of None \<Rightarrow> None | Some ss \<Rightarrow> Some (s # ss))"
| "str_items (v # vs) = None"

definition field_str_list :: "(string \<times> json) list \<Rightarrow> string \<Rightarrow> string list option" where
  "field_str_list kvs k = (case dict_get kvs k of Some (JArray vs) \<Rightarrow> str_items vs | _ \<Rightarrow> None)"

definition validate_DesignSpec :: "(string \<times> json) list \<Rightarrow> DesignSpec option" where
  "validate_DesignSpec kvs =
     do {
       c1 \<leftarrow> field_str kvs ''primary_color'';
       c2 \<leftarrow> field_str kvs ''secondary_color'';
       c3 \<leftarrow> field_str kvs ''accent_color'';
       c4 \<leftarrow> field_str kvs ''background_color'';
       c5 \<leftarrow> field_str kvs ''text_color'';
       c6 \<leftarrow> field_str kvs ''text_secondary_color'';
       f1 \<leftarrow> field_str kvs ''title_font_size'';
       f2 \<leftarrow> field_str kvs ''content_font_size'';
       f3 \<leftarrow> field_str kvs ''font_family'';
       l1 \<leftarrow> field_str kvs ''layout_style'';
       l2 \<leftarrow> field_str kvs ''spacing'';
       l3 \<leftarrow> field_str kvs ''border_radius'';
       v1 \<leftarrow> field_bool kvs ''use_shadows'';
       v2 \<leftarrow> field_bool kvs ''use_gradients'';
       v3 \<leftarrow> field_str kvs ''animation_style'';
       cc \<leftarrow> field_str_list kvs ''chart_colors'';
       Some \<lparr> primary_color = c1, secondary_color = c2, accent_color = c3,
              background_color = c4, text_color = c5, text_secondary_color = c6,
              title_font_size = f1, content_font_size = f2, font_family = f3,
              layout_style = l1, spacing = l2, border_radius = l3,
              use_shadows = v1, use_gradients = v2, animation_style = v3,
              chart_colors = cc \<rparr>
     }"

definition DesignSpec_init :: "json \<Rightarrow> py_exception + DesignSpec" where
  "DesignSpec_init design_dict =
     (case design_dict of
        JObject kvs \<Rightarrow>
          (case validate_DesignSpec kvs of
             None \<Rightarrow> Inl (ValidationError ''validation error for DesignSpec'')
           | Some d \<Rightarrow> Inr d)
      | _ \<Rightarrow> Inl (TypeError ''argument after ** must be a mapping''))"

subsection \<open>DesignCoordinator._get_default_design\<close>

text \<open>The three records of the dictionary \<^verbatim>\<open>default_designs\<close>.\<close>

definition ted_design :: DesignSpec where
  "ted_design =
     \<lparr> primary_color = ''#dc2626'', secondary_color = ''#1f2937'',
       accent_color = ''#fbbf24'', background_color = ''#ffffff'',
       text_color = ''#1f2937'', text_secondary_color = ''#6b7280'',
       title_font_size = ''4rem'', content_font_size = ''1.5rem'',
       font_family = '''Segoe UI', 'Microsoft YaHei', sans-serif'',
       layout_style = ''minimal'', spacing = ''spacious'', border_radius = ''0px'',
       use_shadows = False, use_gradients = False, animation_style = ''none'',
       chart_colors = [''#dc2626'', ''#1f2937'', ''#fbbf24'', ''#6b7280'', ''#f97316''] \<rparr>"

definition business_design :: DesignSpec where
  "business_design =
     \<lparr> primary_color = ''#2563eb'', secondary_color = ''#1d4ed8'',
       accent_color = ''#3b82f6'', background_color = ''#ffffff'',
       text_color = ''#1f2937'', text_secondary_color = ''#6b7280'',
       title_font_size = ''2.5rem'', content_font_size = ''1rem'',
       font_family = '''Segoe UI', 'Microsoft YaHei', sans-serif'',
       layout_style = ''business'', spacing = ''normal'', border_radius = ''0.5rem'',
       use_shadows = True, use_gradients = True, animation_style = ''subtle'',
       chart_colors = [''#2563eb'', ''#3b82f6'', ''#60a5fa'', ''#93c5fd'', ''#dbeafe''] \<rparr>"

definition simple_design :: DesignSpec where
  "simple_design =
     \<lparr> primary_color = ''#1f2937'', secondary_color = ''#374151'',
       accent_color = ''#4b5563'', background_color = ''#ffffff'',
       text_color = ''#1f2937'', text_secondary_color = ''#6b7280'',
       title_font_size = ''2.5rem'', content_font_size = ''1rem'',
       font_family = '''Segoe UI', 'Microsoft YaHei', sans-serif'',
       layout_style = ''minimal'', spacing = ''spacious'', border_radius = ''0px'',
       use_shadows = False, use_gradients = False, animation_style = ''none'',
       chart_colors = [''#1f2937'', ''#374151'', ''#4b5563'', ''#6b7280'', ''#9ca3af''] \<rparr>"

text \<open>The dictionary, with its keys in the order of the source.\<close>

definition default_designs :: "(string \<times> DesignSpec) list" where
  "default_designs =
     [(''ted'', ted_design), (''business'', business_design), (''simple'', simple_design)]"

text \<open>
  \<^verbatim>\<open>default_designs.get(style, default_designs['business'])\<close>.  The subscript is evaluated
  first, as an argument of \<^verbatim>\<open>get\<close>, and raises \<^verbatim>\<open>KeyError\<close> on a missing key.
\<close>

definition get_default_design :: "string \<Rightarrow> py_exception + DesignSpec" where
  "get_default_design style =
     (case map_of default_designs ''business'' of
        None \<Rightarrow> Inl (KeyError ''business'')
      | Some generic \<Rightarrow>
          Inr (case map_of default_designs style of None \<Rightarrow> generic | Some d \<Rightarrow> d))"

subsection \<open>DesignCoordinator._build_design_prompt: the style tags\<close>

text \<open>
  The keys of \<^verbatim>\<open>style_guides\<close>, in the order of the source: the style tags the coordinator
  has guidance for (the docstring of \<^verbatim>\<open>generate_design_spec\<close> lists the same five).
\<close>

definition style_guide_tags :: "string list" where
  "style_guide_tags = [''ted'', ''business'', ''academic'', ''creative'', ''simple'']"

subsection \<open>The reply of the model client\<close>

text \<open>
  \<^verbatim>\<open>chat_completion\<close> returns a dictionary or raises.  Of the dictionary only the entry
  \<^verbatim>\<open>"content"\<close> is read: the client copies it from the provider's message, where it is a
  string or \<^verbatim>\<open>None\<close>.  \<open>Absent\<close> is a dictionary without the key.  \<open>get_content\<close> is
  \<^verbatim>\<open>response.get("content", "")\<close>, with \<open>None\<close> for Python's \<^verbatim>\<open>None\<close>, and \<open>py_strip\<close> is the
  call of \<^verbatim>\<open>.strip()\<close> on that value, which \<^verbatim>\<open>None\<close> does not have.
\<close>

datatype py_content = Absent | PyNone | PyStr string

definition none_has_no_strip :: py_exception where
  "none_has_no_strip =
     AttributeError ('''NoneType' object has no attribute 'strip'' @ [CHR 0x27])"

definition get_content :: "py_content \<Rightarrow> string option" where
  "get_content c = (case c of Absent \<Rightarrow> Some [] | PyNone \<Rightarrow> None | PyStr s \<Rightarrow> Some s)"

definition py_strip :: "string option \<Rightarrow> py_exception + string" where
  "py_strip v = (case v of None \<Rightarrow> Inl none_has_no_strip | Some s \<Rightarrow> Inr (strip s))"

subsection \<open>DesignCoordinator.generate_design_spec\<close>

text \<open>
  The topic and the outline go into the prompt only.  Building the prompt comes first and
  is not modelled; it stands before the \<^verbatim>\<open>try\<close> too, and raises on an outline whose pages
  are not dictionaries with string topics.  \<open>reply\<close> is what the awaited
  \<^verbatim>\<open>chat_completion\<close> call gives back in a run that got that far.  The call and the reading
  of the content stand before the \<^verbatim>\<open>try\<close>: an exception there leaves the method.  \<open>clean_design_content\<close> is the removal
  of the code block markers (an \<^verbatim>\<open>if\<close>/\<^verbatim>\<open>elif\<close> for the opening marker), \<open>parse_design\<close>
  the body of the \<^verbatim>\<open>try\<close>, and the last case the handler \<^verbatim>\<open>except Exception\<close>.
\<close>

definition clean_design_content :: "string \<Rightarrow> string" where
  "clean_design_content content0 =
     (let content1 = (if startswith content0 ''```json'' then drop 7 content0
                      else if startswith content0 ''```'' then drop 3 content0
                      else content0);
          content2 = (if endswith content1 ''```'' then drop_last 3 content1 else content1)
      in strip content2)"

definition parse_design :: "(string \<Rightarrow> py_exception + json) \<Rightarrow> string \<Rightarrow> py_exception + DesignSpec" where
  "parse_design loads content =
     (case loads content of
        Inl x \<Rightarrow> Inl x
      | Inr design_dict \<Rightarrow> DesignSpec_init design_dict)"

definition generate_design_spec ::
  "(string \<Rightarrow> py_exception + json) \<Rightarrow> (py_exception + py_content) \<Rightarrow> string
     \<Rightarrow> py_exception + DesignSpec" where
  "generate_design_spec loads reply style =
     (case reply of
        Inl x \<Rightarrow> Inl x
      | Inr response \<Rightarrow>
         (case py_strip (get_content response) of
            Inl x \<Rightarrow> Inl x
          | Inr content0 \<Rightarrow>
             (case parse_design loads (clean_design_content content0) of
                Inr design_spec \<Rightarrow> Inr design_spec
              | Inl x \<Rightarrow> get_default_design style)))"

subsection \<open>The invariant the specification states for a DesignSpec\<close>

definition is_hex_digit :: "char \<Rightarrow> bool" where
  "is_hex_digit c \<longleftrightarrow> c \<in> set ''0123456789abcdefABCDEF''"

definition is_hex_color :: "string \<Rightarrow> bool" where
  "is_hex_color s \<longleftrightarrow> length s = 7 \<and> take 1 s = ''#'' \<and> list_all is_hex_digit (drop 1 s)"

definition design_ok :: "DesignSpec \<Rightarrow> bool" where
  "design_ok d \<longleftrightarrow>
     is_hex_color (primary_color d) \<and> is_hex_color (secondary_color d) \<and>
     is_hex_color (accent_color d) \<and> is_hex_color (background_color d) \<and>
     is_hex_color (text_color d) \<and> is_hex_color (text_secondary_color d) \<and>
     length (chart_colors d) = 5"

section \<open>client.py\<close>

subsection \<open>LLMClient._fallback_structured_response\<close>

text \<open>
  The prompt with the schema goes into the call; \<open>reply\<close> is what the awaited
  \<^verbatim>\<open>chat_completion\<close> gives back.  \<open>clean_fallback_content\<close> takes the stripped content and
  removes the markers with three independent \<^verbatim>\<open>if\<close>s.  \<open>response_model\<close> is the constructor
  of the target record, called with the decoded value, or \<open>None\<close>; the method returns the
  record (\<open>Inr\<close>) or, without a model, the decoded value (\<open>Inl\<close>).  Nothing is caught here.
\<close>

definition clean_fallback_content :: "string \<Rightarrow> string" where
  "clean_fallback_content content1 =
     (let content2 = (if startswith content1 ''```json'' then drop 7 content1 else content1);
          content3 = (if startswith content2 ''```'' then drop 3 content2 else content2);
          content4 = (if endswith content3 ''```'' then drop_last 3 content3 else content3)
      in strip content4)"

definition fallback_structured_response ::
  "(string \<Rightarrow> py_exception + json) \<Rightarrow> (json \<Rightarrow> py_exception + 'a) option
     \<Rightarrow> (py_exception + py_content) \<Rightarrow> py_exception + (json + 'a)" where
  "fallback_structured_response loads response_model reply =
     (case reply of
        Inl x \<Rightarrow> Inl x
      | Inr result \<Rightarrow>
         (case py_strip (get_content result) of
            Inl x \<Rightarrow> Inl x
          | Inr content1 \<Rightarrow>
             (case loads (clean_fallback_content content1) of
                Inl x \<Rightarrow> Inl x
              | Inr data \<Rightarrow>
                 (case response_model of
                    Some model \<Rightarrow> (case model data of Inl x \<Rightarrow> Inl x | Inr m \<Rightarrow> Inr (Inr m))
                  | None \<Rightarrow> Inr (Inl data)))))"

section \<open>page_agent.py\<close>

text \<open>
  The page specification and the content data go into the prompts only.  Of the global
  context the method reads \<^verbatim>\<open>speech_scene\<close>.
\<close>

record GlobalContext =
  gc_ppt_title :: string
  gc_style :: string
  gc_colors :: "(string \<times> string) list"
  gc_total_slides :: int
  speech_scene :: "string option"

record page_result =
  html_content :: string
  speech_notes :: "string option"

text \<open>
  \<^verbatim>\<open>re.search(r'<[a-zA-Z!]', html)\<close>: the index of the first \<^verbatim>\<open><\<close> that is followed by a letter
  or \<^verbatim>\<open>!\<close>, if there is one.
\<close>

definition tag_start :: "char \<Rightarrow> bool" where
  "tag_start c \<longleftrightarrow>
     (let n = (of_char c :: nat) in (97 \<le> n \<and> n \<le> 122) \<or> (65 \<le> n \<and> n \<le> 90) \<or> c = CHR ''!'')"

fun search_tag :: "string \<Rightarrow> nat option" where
  "search_tag [] = None"
| "search_tag [c] = None"
| "search_tag (c # d # cs) =
     (if c = CHR ''<'' \<and> tag_start d then Some 0
      else (case search_tag (d # cs) of None \<Rightarrow> None | Some i \<Rightarrow> Some (Suc i)))"

text \<open>The clean-up of the model output, steps 1 to 3 of the source.\<close>

definition clean_html :: "string \<Rightarrow> string" where
  "clean_html html0 =
     (let html1 = (case search_tag html0 of Some i \<Rightarrow> drop i html0 | None \<Rightarrow> html0);
          html2 = (if startswith html1 ''```html'' then drop 7 html1 else html1);
          html3 = (if startswith html2 ''```'' then drop 3 html2 else html2);
          html4 = (if endswith html3 ''```'' then drop_last 3 html3 else html3);
          html5 = strip html4;
          html6 = (case search_tag html5 of
                     Some i \<Rightarrow> if i > 0 then drop i html5 else html5
                   | None \<Rightarrow> html5)
      in html6)"

text \<open>
  \<^verbatim>\<open>_generate_speech_notes\<close>: one more call of the model client, \<open>reply\<close> being what it
  gives back, and the stripped content of the response.  Nothing is caught.
\<close>

definition generate_speech_notes :: "(py_exception + py_content) \<Rightarrow> py_exception + string" where
  "generate_speech_notes reply =
     (case reply of
        Inl x \<Rightarrow> Inl x
      | Inr response \<Rightarrow> py_strip (get_content response))"

text \<open>\<^verbatim>\<open>if global_context.speech_scene:\<close> holds for a string that is not empty.\<close>

definition truthy :: "string option \<Rightarrow> bool" where
  "truthy v \<longleftrightarrow> (case v of None \<Rightarrow> False | Some s \<Rightarrow> s \<noteq> [])"

text \<open>
  \<^verbatim>\<open>generate_page_html\<close>.  \<open>reply\<close> is what the call for the page gives back and
  \<open>speech_reply\<close> what the call for the notes gives back, if it is made.  The method has
  no \<^verbatim>\<open>try\<close>: an exception of either call leaves it.
\<close>

definition generate_page_html ::
  "(py_exception + py_content) \<Rightarrow> (py_exception + py_content) \<Rightarrow> GlobalContext
     \<Rightarrow> py_exception + page_result" where
  "generate_page_html reply speech_reply global_context =
     (case reply of
        Inl x \<Rightarrow> Inl x
      | Inr response \<Rightarrow>
         (case py_strip (get_content response) of
            Inl x \<Rightarrow> Inl x
          | Inr html0 \<Rightarrow>
             (let html = clean_html html0;
                  result = \<lparr> html_content = strip html, speech_notes = None \<rparr>
              in if truthy (speech_scene global_context) then
                   (case generate_speech_notes speech_reply of
                      Inl x \<Rightarrow> Inl x
                    | Inr notes \<Rightarrow> Inr (result \<lparr> speech_notes := Some notes \<rparr>))
                 else Inr result)))"

section \<open>multi_slide_generator.py\<close>

subsection \<open>Data\<close>

text \<open>
  A slide dictionary of \<^verbatim>\<open>slides_data\<close>, with the keys the generator reads.  A key that is
  absent is \<open>None\<close>, so \<^verbatim>\<open>d.get(k, default)\<close> is a case distinction on the field and
  \<^verbatim>\<open>'html_content' in d\<close> is \<open>sd_html_content d \<noteq> None\<close>.
\<close>

record slide_data =
  sd_type :: "string option"
  sd_title :: "string option"
  sd_template :: "string option"
  sd_html_content :: "string option"

record ppt_config =
  cfg_title :: "string option"
  cfg_theme :: "string option"
  cfg_color_scheme :: "(string \<times> string) list option"

text \<open>One entry of \<^verbatim>\<open>slides_meta\<close>; \<^verbatim>\<open>None\<close> in \<^verbatim>\<open>prev\<close> and \<^verbatim>\<open>next\<close> is \<open>None\<close>.\<close>

record slide_meta =
  slide_id :: string
  slide_number :: nat
  file_name :: string
  slide_type :: string
  title :: string
  template :: string
  prev :: "string option"
  "next" :: "string option"

record metadata =
  ppt_title :: string
  total_slides :: nat
  generation_time :: string
  theme :: string
  color_scheme :: "(string \<times> string) list"
  slides :: "slide_meta list"

subsection \<open>Formatting \<^verbatim>\<open>{n:02d}\<close>\<close>

definition digit_char :: "nat \<Rightarrow> char" where
  "digit_char d = ''0123456789'' ! d"

fun str_nat :: "nat \<Rightarrow> string" where
  "str_nat n = (if n < 10 then [digit_char n] else str_nat (n div 10) @ [digit_char (n mod 10)])"

declare str_nat.simps [simp del]

definition fmt_02d :: "nat \<Rightarrow> string" where
  "fmt_02d n = (let s = str_nat n in replicate (2 - length s) CHR ''0'' @ s)"

subsection \<open>_create_slides_metadata\<close>

definition get_type :: "slide_data \<Rightarrow> string" where
  "get_type d = (case sd_type d of None \<Rightarrow> ''content'' | Some t \<Rightarrow> t)"

definition slide_file :: "nat \<Rightarrow> string \<Rightarrow> string" where
  "slide_file n t = ''slide_'' @ fmt_02d n @ ''_'' @ t @ ''.html''"

text \<open>
  The body of the loop for index \<open>i\<close>.  \<^verbatim>\<open>slides_data[i-1]\<close> is read only when \<open>i > 0\<close> and
  \<^verbatim>\<open>slides_data[i+1]\<close> only when \<open>i < total_slides - 1\<close>, so both reads are in range; the
  comparison is written \<open>i + 1 < total_slides\<close> because Python's \<open>total_slides - 1\<close> is an
  integer that can be \<open>-1\<close>.
\<close>

definition slide_meta_at :: "slide_data list \<Rightarrow> nat \<Rightarrow> slide_meta" where
  "slide_meta_at slides_data i =
    (let total = length slides_data;
         d = slides_data ! i;
         number = i + 1;
         stype = get_type d;
         prev_file = (if i > 0 then Some (slide_file (number - 1) (get_type (slides_data ! (i - 1))))
                      else None);
         next_file = (if i + 1 < total then Some (slide_file (number + 1) (get_type (slides_data ! (i + 1))))
                      else None)
     in \<lparr> slide_id = ''slide_'' @ fmt_02d number,
          slide_number = number,
          file_name = slide_file number stype,
          slide_type = stype,
          title = (case sd_title d of None \<Rightarrow> ''Slide '' @ str_nat number | Some t \<Rightarrow> t),
          template = (case sd_template d of None \<Rightarrow> stype | Some t \<Rightarrow> t),
          prev = prev_file,
          next = next_file \<rparr>)"

text \<open>\<open>now\<close> is what \<^verbatim>\<open>datetime.now().strftime(...)\<close> returns.\<close>

definition create_slides_metadata :: "string \<Rightarrow> slide_data list \<Rightarrow> ppt_config \<Rightarrow> metadata" where
  "create_slides_metadata now slides_data config =
     \<lparr> ppt_title = (case cfg_title config of None \<Rightarrow> ''Untitled Presentation'' | Some t \<Rightarrow> t),
       total_slides = length slides_data,
       generation_time = now,
       theme = (case cfg_theme config of None \<Rightarrow> ''business'' | Some t \<Rightarrow> t),
       color_scheme = (case cfg_color_scheme config of
                         None \<Rightarrow> [(''primary'', ''#2E8B57''), (''secondary'', ''#FF8C00''),
                                  (''accent'', ''#E6E6FA'')]
                       | Some c \<Rightarrow> c),
       slides = map (slide_meta_at slides_data) [0 ..< length slides_data] \<rparr>"

subsection \<open>Following \<^verbatim>\<open>next\<close> through the metadata\<close>

text \<open>
  The traversal the specification speaks of: from a slide, look up the slide whose file name
  is the \<^verbatim>\<open>next\<close> pointer, and go on.  \<open>fuel\<close> bounds the number of steps, so that a cycle
  would show as a walk longer than the list.
\<close>

fun traverse_next :: "nat \<Rightarrow> slide_meta list \<Rightarrow> slide_meta \<Rightarrow> slide_meta list" where
  "traverse_next 0 ms m = [m]"
| "traverse_next (Suc k) ms m =
     m # (case next m of
            None \<Rightarrow> []
          | Some f \<Rightarrow> (case find (\<lambda>m'. file_name m' = f) ms of
                        None \<Rightarrow> []
                      | Some m' \<Rightarrow> traverse_next k ms m'))"

subsection \<open>The environment of one run\<close>

text \<open>
  What the generator cannot decide by itself is given by the environment: whether a file
  system call or a template rendering raises (\<open>Some e\<close>) or returns (\<open>None\<close>), and the
  clock.  The text of the rendered pages is not modelled, only what each page is rendered
  from and whether producing it raises.
\<close>

record env =
  mkdir_raises :: "string \<Rightarrow> py_exception option"
  slide_render_raises :: "nat \<Rightarrow> py_exception option"
  page_render_raises :: "string \<Rightarrow> py_exception option"
  write_raises :: "string \<Rightarrow> py_exception option"
  json_dumps_raises :: "py_exception option"
  now :: string

datatype file_content =
    SlideHtml nat
  | Rendered string metadata
  | Json metadata

type_synonym files = "(string \<times> file_content) list"

text \<open>
  \<^verbatim>\<open>d / f\<close> of \<^verbatim>\<open>pathlib\<close>, on the text \<^verbatim>\<open>str\<close> gives for a path: the current directory is
  \<^verbatim>\<open>.\<close> and joining to it gives the name alone; a root ends with the separator and takes
  no second one; \<open>f\<close> is a single name.
\<close>

definition path_join :: "string \<Rightarrow> string \<Rightarrow> string" where
  "path_join d f =
     (if d = [] \<or> d = ''.'' then f
      else if last d = CHR ''/'' then d @ f
      else d @ ''/'' @ f)"

subsection \<open>_create_directory_structure\<close>

fun first_raise :: "('a \<Rightarrow> py_exception option) \<Rightarrow> 'a list \<Rightarrow> py_exception option" where
  "first_raise f [] = None"
| "first_raise f (x # xs) = (case f x of Some e \<Rightarrow> Some e | None \<Rightarrow> first_raise f xs)"

definition create_directory_structure :: "env \<Rightarrow> string \<Rightarrow> py_exception + string" where
  "create_directory_structure e output_dir =
    (let ppt_dir = path_join output_dir ''ppt'' in
     case first_raise (mkdir_raises e)
            [ppt_dir,
             path_join ppt_dir ''slides'',
             path_join (path_join ppt_dir ''assets'') ''styles'',
             path_join (path_join ppt_dir ''assets'') ''scripts'',
             path_join (path_join ppt_dir ''assets'') ''images'',
             path_join ppt_dir ''data''] of
       Some x \<Rightarrow> Inl x
     | None \<Rightarrow> Inr ppt_dir)"

subsection \<open>_generate_single_slide\<close>

text \<open>
  With \<^verbatim>\<open>html_content\<close> in the slide dictionary no template is rendered; otherwise the
  template lookup and rendering may raise.  Wrapping the HTML is string formatting.  Then
  the page is written.  The handler logs and re-raises, so an exception leaves the method
  as it came.
\<close>

definition generate_single_slide ::
  "env \<Rightarrow> slide_data \<Rightarrow> slide_meta \<Rightarrow> string \<Rightarrow> py_exception + string" where
  "generate_single_slide e d m ppt_dir =
    (case (if sd_html_content d \<noteq> None then None else slide_render_raises e (slide_number m)) of
       Some x \<Rightarrow> Inl x
     | None \<Rightarrow>
        (let output_file = path_join (path_join ppt_dir ''slides'') (file_name m) in
         case write_raises e output_file of
           Some x \<Rightarrow> Inl x
         | None \<Rightarrow> Inr output_file))"

subsection \<open>_generate_all_slides\<close>

text \<open>
  One task per slide, then \<^verbatim>\<open>asyncio.gather(*tasks, return_exceptions=True)\<close>: the list of
  results has one entry per slide, in the order of the slides, an exception or a path.
  The loop after it keeps the paths.
\<close>

definition gather_slides ::
  "env \<Rightarrow> slide_data list \<Rightarrow> metadata \<Rightarrow> string \<Rightarrow> (py_exception + string) list" where
  "gather_slides e slides_data md ppt_dir =
     map (\<lambda>i. generate_single_slide e (slides_data ! i) (slides md ! i) ppt_dir)
         [0 ..< length slides_data]"

fun keep_paths :: "(py_exception + string) list \<Rightarrow> string list" where
  "keep_paths [] = []"
| "keep_paths (Inl x # rs) = keep_paths rs"
| "keep_paths (Inr p # rs) = p # keep_paths rs"

definition generate_all_slides ::
  "env \<Rightarrow> slide_data list \<Rightarrow> metadata \<Rightarrow> string \<Rightarrow> string list" where
  "generate_all_slides e slides_data md ppt_dir = keep_paths (gather_slides e slides_data md ppt_dir)"

text \<open>The slide files a run leaves on disk: one per task that returned.\<close>

fun slide_writes :: "nat \<Rightarrow> (py_exception + string) list \<Rightarrow> files" where
  "slide_writes n [] = []"
| "slide_writes n (Inl x # rs) = slide_writes (Suc n) rs"
| "slide_writes n (Inr p # rs) = (p, SlideHtml n) # slide_writes (Suc n) rs"

subsection \<open>_generate_navigation_pages, _save_metadata\<close>

text \<open>
  \<^verbatim>\<open>_generate_index_page\<close> and \<^verbatim>\<open>_generate_presenter_page\<close> render a template from the
  metadata and write it; each catches every exception and logs a warning.
\<close>

definition generate_page :: "env \<Rightarrow> string \<Rightarrow> metadata \<Rightarrow> string \<Rightarrow> files" where
  "generate_page e name md ppt_dir =
    (case page_render_raises e name of
       Some x \<Rightarrow> []
     | None \<Rightarrow> (case write_raises e (path_join ppt_dir name) of
                  Some x \<Rightarrow> []
                | None \<Rightarrow> [(path_join ppt_dir name, Rendered name md)]))"

definition generate_navigation_pages :: "env \<Rightarrow> metadata \<Rightarrow> string \<Rightarrow> files" where
  "generate_navigation_pages e md ppt_dir =
     generate_page e ''index.html'' md ppt_dir @ generate_page e ''presenter.html'' md ppt_dir"

definition save_metadata :: "env \<Rightarrow> metadata \<Rightarrow> string \<Rightarrow> py_exception + files" where
  "save_metadata e md ppt_dir =
    (let metadata_file = path_join (path_join ppt_dir ''data'') ''slides_metadata.json'' in
     case json_dumps_raises e of
       Some x \<Rightarrow> Inl x
     | None \<Rightarrow> (case write_raises e metadata_file of
                  Some x \<Rightarrow> Inl x
                | None \<Rightarrow> Inr [(metadata_file, Json md)]))"

subsection \<open>generate_ppt\<close>

text \<open>The dictionary the method returns; a key that is not set is \<open>None\<close>.\<close>

record ppt_result =
  status :: string
  error :: "string option"
  ppt_dir :: "string option"
  res_total_slides :: "nat option"
  slide_files :: "string list option"
  index_page :: "string option"
  presenter_page :: "string option"

text \<open>
  The body of the \<^verbatim>\<open>try\<close>: the value it returns or the exception that leaves it, and the
  files written until then.
\<close>

definition generate_ppt_try ::
  "env \<Rightarrow> slide_data list \<Rightarrow> ppt_config \<Rightarrow> string \<Rightarrow> (py_exception + ppt_result) \<times> files" where
  "generate_ppt_try e slides_data config output_dir =
    (case create_directory_structure e output_dir of
       Inl x \<Rightarrow> (Inl x, [])
     | Inr dir \<Rightarrow>
        (let md = create_slides_metadata (now e) slides_data config;
             results = gather_slides e slides_data md dir;
             files1 = slide_writes 1 results;
             files2 = files1 @ generate_navigation_pages e md dir
         in case save_metadata e md dir of
              Inl x \<Rightarrow> (Inl x, files2)
            | Inr written \<Rightarrow>
               (Inr \<lparr> status = ''success'', error = None, ppt_dir = Some dir,
                      res_total_slides = Some (length slides_data),
                      slide_files = Some (generate_all_slides e slides_data md dir),
                      index_page = Some (path_join dir ''index.html''),
                      presenter_page = Some (path_join dir ''presenter.html'') \<rparr>,
                files2 @ written)))"

text \<open>
  \<^verbatim>\<open>except Exception as e\<close>: the error dictionary.  The left summand of the result is an
  exception that leaves \<^verbatim>\<open>generate_ppt\<close>.
\<close>

definition generate_ppt ::
  "env \<Rightarrow> slide_data list \<Rightarrow> ppt_config \<Rightarrow> string \<Rightarrow> (py_exception + ppt_result) \<times> files" where
  "generate_ppt e slides_data config output_dir =
    (case generate_ppt_try e slides_data config output_dir of
       (Inl x, written) \<Rightarrow>
         (Inr \<lparr> status = ''error'', error = Some (str_of x), ppt_dir = None,
                res_total_slides = None, slide_files = None,
                index_page = None, presenter_page = None \<rparr>, written)
     | (Inr r, written) \<Rightarrow> (Inr r, written))"

text \<open>The metadata a written file was rendered or serialised from, if any.\<close>

definition content_metadata :: "file_content \<Rightarrow> metadata option" where
  "content_metadata c = (case c of SlideHtml n \<Rightarrow> None | Rendered t m \<Rightarrow> Some m | Json m \<Rightarrow> Some m)"

section \<open>tasks.py\<close>

text \<open>
  The columns of \<^verbatim>\<open>Project\<close> the task writes and a claim reads; the task also sets
  \<^verbatim>\<open>search_results_count\<close>, \<^verbatim>\<open>project_metadata\<close>, \<^verbatim>\<open>output_size\<close>, \<^verbatim>\<open>processing_time\<close> and
  the time stamps, which are left out.
\<close>

datatype ProjectStatus = PENDING | PROCESSING | COMPLETED | FAILED | CANCELLED

record project =
  p_status :: ProjectStatus
  p_progress :: int
  p_error_message :: "string option"
  p_output_path :: "string option"

text \<open>
  The dictionary \<^verbatim>\<open>search_agent.search\<close> returns, with the keys the task reads.
\<close>

record search_result =
  sr_status :: "string option"
  sr_error :: "string option"
  sr_output_path :: "string option"
  sr_project_dir :: "string option"

text \<open>
  What a run reports, in order: a \<^verbatim>\<open>db.commit()\<close> that returned, with the status and the
  progress it stored, and the messages of the connection manager.  Only
  \<^verbatim>\<open>send_progress_update\<close> carries a progress value; none of the three senders raises
  (\<^verbatim>\<open>send_personal_message\<close> catches what the socket raises).
\<close>

datatype event =
    Committed ProjectStatus int
  | Progress_update int string string
  | Completion_notification string
  | Error_notification string

text \<open>
  The environment of a run: what the query for the project gives, which call of
  \<^verbatim>\<open>db.commit()\<close> raises (counted from 1 in the order of the calls), whether creating the
  manager and the agent, building the context, serialising the metadata or reading the
  file size raises, what the search gives, and which paths exist.
\<close>

record task_env =
  query_result :: "py_exception + project option"
  commit_raises :: "nat \<Rightarrow> py_exception option"
  init_raises :: "py_exception option"
  context_raises :: "py_exception option"
  search_reply :: "py_exception + search_result"
  metadata_raises :: "py_exception option"
  path_exists :: "string \<Rightarrow> bool"
  getsize_raises :: "py_exception option"

text \<open>
  The state of a run: the project object in memory, the number of commits called, the
  reports so far, and the local variables \<^verbatim>\<open>result\<close> and \<^verbatim>\<open>output_path\<close>.
\<close>

record run_state =
  the_project :: project
  commits :: nat
  events :: "event list"
  search_res :: "search_result option"
  output_path :: "string option"

text \<open>
  A statement takes the state to the exception it raises, if any, and the state it leaves.
  A list of statements runs until one raises.
\<close>

type_synonym step = "run_state \<Rightarrow> py_exception option \<times> run_state"

fun run_steps :: "step list \<Rightarrow> run_state \<Rightarrow> py_exception option \<times> run_state" where
  "run_steps [] s = (None, s)"
| "run_steps (f # fs) s =
     (case f s of (Some x, s') \<Rightarrow> (Some x, s') | (None, s') \<Rightarrow> run_steps fs s')"

definition set_status :: "ProjectStatus \<Rightarrow> step" where
  "set_status v s = (None, s \<lparr> the_project := (the_project s) \<lparr> p_status := v \<rparr> \<rparr>)"

definition set_progress :: "int \<Rightarrow> step" where
  "set_progress v s = (None, s \<lparr> the_project := (the_project s) \<lparr> p_progress := v \<rparr> \<rparr>)"

definition set_error_message :: "string \<Rightarrow> step" where
  "set_error_message v s = (None, s \<lparr> the_project := (the_project s) \<lparr> p_error_message := Some v \<rparr> \<rparr>)"

definition commit :: "task_env \<Rightarrow> step" where
  "commit e s =
     (let k = Suc (commits s) in
      case commit_raises e k of
        Some x \<Rightarrow> (Some x, s \<lparr> commits := k \<rparr>)
      | None \<Rightarrow> (None, s \<lparr> commits := k,
                          events := events s @ [Committed (p_status (the_project s))
                                                          (p_progress (the_project s))] \<rparr>))"

definition send_progress_update :: "int \<Rightarrow> string \<Rightarrow> string \<Rightarrow> step" where
  "send_progress_update n st msg s =
     (None, s \<lparr> events := events s @ [Progress_update n st msg] \<rparr>)"

definition send_completion_notification :: step where
  "send_completion_notification s =
     (None, s \<lparr> events := events s @
        [Completion_notification (case output_path s of Some p \<Rightarrow> p | None \<Rightarrow> [])] \<rparr>)"

definition send_error_notification :: "string \<Rightarrow> step" where
  "send_error_notification err s = (None, s \<lparr> events := events s @ [Error_notification err] \<rparr>)"

definition extern :: "py_exception option \<Rightarrow> step" where
  "extern r s = (r, s)"

definition search :: "task_env \<Rightarrow> step" where
  "search e s =
     (case search_reply e of
        Inl x \<Rightarrow> (Some x, s)
      | Inr r \<Rightarrow> (None, s \<lparr> search_res := Some r \<rparr>))"

text \<open>
  \<^verbatim>\<open>if result.get("status") != "success": raise Exception(result.get("error", ...))\<close>.
\<close>

definition check_search :: step where
  "check_search s =
     (case search_res s of
        None \<Rightarrow> (None, s)
      | Some r \<Rightarrow>
         if sr_status r \<noteq> Some ''success''
         then (Some (Exception (case sr_error r of None \<Rightarrow> ''Unknown error during search'' | Some m \<Rightarrow> m)), s)
         else (None, s))"

text \<open>
  The search for the output file: \<^verbatim>\<open>not output_path\<close> holds for \<^verbatim>\<open>None\<close> and for the empty
  string.
\<close>

definition falsy :: "string option \<Rightarrow> bool" where
  "falsy v \<longleftrightarrow> (case v of None \<Rightarrow> True | Some p \<Rightarrow> p = [])"

definition os_path_join :: "string \<Rightarrow> string \<Rightarrow> string" where
  "os_path_join a b =
     (if a = [] then b else if last a = CHR ''/'' then a @ b else a @ ''/'' @ b)"

definition report_path :: "string \<Rightarrow> string \<Rightarrow> string" where
  "report_path project_dir name = os_path_join (os_path_join project_dir ''reports'') name"

definition find_output :: "task_env \<Rightarrow> step" where
  "find_output e s =
     (case search_res s of
        None \<Rightarrow> (None, s)
      | Some r \<Rightarrow>
         (let path0 = sr_output_path r;
              path1 =
                (if falsy path0 then
                   (case sr_project_dir r of
                      None \<Rightarrow> path0
                    | Some dir \<Rightarrow>
                       if dir = [] then path0
                       else if path_exists e (report_path dir ''FINAL_REPORT.html'')
                       then Some (report_path dir ''FINAL_REPORT.html'')
                       else if path_exists e (report_path dir ''FINAL_REPORT.md'')
                       then Some (report_path dir ''FINAL_REPORT.md'')
                       else path0)
                 else path0)
          in if falsy path1 \<or> \<not> path_exists e (case path1 of Some p \<Rightarrow> p | None \<Rightarrow> [])
             then (Some (Exception (''Generated document not found. Project dir: '' @
                     (case sr_project_dir r of None \<Rightarrow> ''None'' | Some d \<Rightarrow> d))), s)
             else (None, s \<lparr> output_path := path1 \<rparr>)))"

definition set_output_path :: step where
  "set_output_path s = (None, s \<lparr> the_project := (the_project s) \<lparr> p_output_path := output_path s \<rparr> \<rparr>)"

text \<open>
  The statements of the \<^verbatim>\<open>try\<close> block after the project was found, in the order of the
  source.
\<close>

definition task_body :: "task_env \<Rightarrow> step list" where
  "task_body e =
     [set_status PROCESSING,
      set_progress 0,
      commit e,
      send_progress_update 0 ''processing'' ''Starting document generation...'',
      extern (init_raises e),
      set_progress 10,
      commit e,
      send_progress_update 10 ''processing'' ''Initialized search agent...'',
      extern (context_raises e),
      set_progress 20,
      commit e,
      send_progress_update 20 ''processing'' ''Executing deep search...'',
      search e,
      set_progress 60,
      commit e,
      send_progress_update 60 ''processing'' ''Search completed, generating document...'',
      check_search,
      extern (metadata_raises e),
      set_progress 80,
      commit e,
      send_progress_update 80 ''processing'' ''Finalizing document...'',
      find_output e,
      extern (getsize_raises e),
      set_status COMPLETED,
      set_progress 100,
      set_output_path,
      commit e,
      send_completion_notification]"

text \<open>
  The handler \<^verbatim>\<open>except Exception as e\<close>.  It leaves the progress as it is.
\<close>

definition task_handler :: "task_env \<Rightarrow> py_exception \<Rightarrow> step list" where
  "task_handler e x =
     [set_status FAILED,
      set_error_message (str_of x),
      commit e,
      send_error_notification (str_of x)]"

text \<open>
  The task: the exception that leaves it, if any, and its reports.  Without a project it
  returns at once.  When the query itself raises, the handler finds \<^verbatim>\<open>project\<close> unbound.
\<close>

definition generate_document_task :: "task_env \<Rightarrow> py_exception option \<times> event list" where
  "generate_document_task e =
     (case query_result e of
        Inl x \<Rightarrow> (Some (UnboundLocalError ''project''), [])
      | Inr None \<Rightarrow> (None, [])
      | Inr (Some p) \<Rightarrow>
         (case run_steps (task_body e)
                 \<lparr> the_project = p, commits = 0, events = [], search_res = None, output_path = None \<rparr> of
            (None, s) \<Rightarrow> (None, events s)
          | (Some x, s) \<Rightarrow>
             (case run_steps (task_handler e x) s of (r, s') \<Rightarrow> (r, events s'))))"

text \<open>
  The progress values of a list of reports, stored or sent, in order.
\<close>

fun reported_progress :: "event list \<Rightarrow> int list" where
  "reported_progress [] = []"
| "reported_progress (Committed st p # es) = p # reported_progress es"
| "reported_progress (Progress_update p st m # es) = p # reported_progress es"
| "reported_progress (ev # es) = reported_progress es"

subsection \<open>Assertions on the run state\<close>

text \<open>
  Assertions for the proof: at a checkpoint \<open>k\<close> the progress in memory is \<open>k\<close> and
  everything reported so far is sorted, at most \<open>k\<close> and a checkpoint itself.  \<open>step_ok\<close>
  and \<open>steps_ok\<close> say what holds after a statement or a list of statements, when it
  returns (\<open>Q\<close>) and when it raises (\<open>R\<close>).
\<close>

definition checkpoints :: "int set" where
  "checkpoints = {0, 10, 20, 60, 80, 100}"

definition progress_inv :: "int \<Rightarrow> run_state \<Rightarrow> bool" where
  "progress_inv k s \<longleftrightarrow>
     k \<in> checkpoints \<and> p_progress (the_project s) = k
     \<and> sorted (reported_progress (events s))
     \<and> (\<forall>p \<in> set (reported_progress (events s)). p \<le> k \<and> p \<in> checkpoints)"

definition at_checkpoint :: "run_state \<Rightarrow> bool" where
  "at_checkpoint s \<longleftrightarrow> (\<exists>k. progress_inv k s)"

definition step_ok ::
  "(run_state \<Rightarrow> bool) \<Rightarrow> step \<Rightarrow> (run_state \<Rightarrow> bool) \<Rightarrow> (run_state \<Rightarrow> bool) \<Rightarrow> bool" where
  "step_ok P f Q R \<longleftrightarrow>
     (\<forall>s. P s \<longrightarrow> (case f s of (None, s') \<Rightarrow> Q s' | (Some x, s') \<Rightarrow> R s'))"

definition steps_ok ::
  "(run_state \<Rightarrow> bool) \<Rightarrow> step list \<Rightarrow> (run_state \<Rightarrow> bool) \<Rightarrow> (run_state \<Rightarrow> bool) \<Rightarrow> bool" where
  "steps_ok P fs Q R \<longleftrightarrow>
     (\<forall>s. P s \<longrightarrow> (case run_steps fs s of (None, s') \<Rightarrow> Q s' | (Some x, s') \<Rightarrow> R s'))"

section \<open>Example inputs\<close>

text \<open>
  A deck of five slides; a run in which nothing raises, one in which rendering the third
  slide raises (the other four carry their HTML and are only written), one in which
  creating the output directory raises, and one in which writing the metadata file raises.
\<close>

definition deck5 :: "slide_data list" where
  "deck5 =
    [\<lparr> sd_type = Some ''cover'', sd_title = Some ''Welcome'', sd_template = None,
       sd_html_content = Some ''<div>1</div>'' \<rparr>,
     \<lparr> sd_type = Some ''toc'', sd_title = Some ''Agenda'', sd_template = None,
       sd_html_content = Some ''<div>2</div>'' \<rparr>,
     \<lparr> sd_type = Some ''chart'', sd_title = Some ''Numbers'', sd_template = None,
       sd_html_content = None \<rparr>,
     \<lparr> sd_type = None, sd_title = None, sd_template = None,
       sd_html_content = Some ''<div>4</div>'' \<rparr>,
     \<lparr> sd_type = Some ''summary'', sd_title = Some ''Thanks'', sd_template = None,
       sd_html_content = Some ''<div>5</div>'' \<rparr>]"

definition config0 :: ppt_config where
  "config0 = \<lparr> cfg_title = Some ''Demo'', cfg_theme = None, cfg_color_scheme = None \<rparr>"

definition env_ok :: env where
  "env_ok = \<lparr> mkdir_raises = (\<lambda>p. None), slide_render_raises = (\<lambda>n. None),
              page_render_raises = (\<lambda>p. None), write_raises = (\<lambda>p. None),
              json_dumps_raises = None, now = ''2024-01-01 00:00:00'' \<rparr>"

definition env_slide3_raises :: env where
  "env_slide3_raises =
     env_ok \<lparr> slide_render_raises :=
               (\<lambda>n. if n = 3 then Some (Exception ''slide_chart.html'') else None) \<rparr>"

definition env_mkdir_raises :: env where
  "env_mkdir_raises =
     env_ok \<lparr> mkdir_raises :=
               (\<lambda>p. if p = ''out/ppt'' then Some (Exception ''Permission denied'') else None) \<rparr>"

definition env_save_raises :: env where
  "env_save_raises =
     env_ok \<lparr> write_raises :=
               (\<lambda>p. if p = ''out/ppt/data/slides_metadata.json''
                    then Some (Exception ''No space left on device'') else None) \<rparr>"

text \<open>
  A reply whose JSON is well-formed and has every field of \<^verbatim>\<open>DesignSpec\<close>, with colour names
  instead of hex colours and three chart colours; the record it decodes to; a small
  payload; and a payload wrapped as a model often does: a sentence, a fenced block, a
  sentence.
\<close>

definition design_text_named_colors :: string where
  "design_text_named_colors =
    ''{\"primary_color\": \"red\", \"secondary_color\": \"#1f2937\", \"accent_color\": \"#fbbf24\", '' @
    ''\"background_color\": \"white\", \"text_color\": \"#1f2937\", \"text_secondary_color\": \"#6b7280\", '' @
    ''\"title_font_size\": \"4rem\", \"content_font_size\": \"1.5rem\", \"font_family\": \"sans-serif\", '' @
    ''\"layout_style\": \"minimal\", \"spacing\": \"normal\", \"border_radius\": \"0px\", '' @
    ''\"use_shadows\": false, \"use_gradients\": true, \"animation_style\": \"none\", '' @
    ''\"chart_colors\": [\"red\", \"green\", \"blue\"]}''"

definition named_colors_design :: DesignSpec where
  "named_colors_design =
     \<lparr> primary_color = ''red'', secondary_color = ''#1f2937'',
       accent_color = ''#fbbf24'', background_color = ''white'',
       text_color = ''#1f2937'', text_secondary_color = ''#6b7280'',
       title_font_size = ''4rem'', content_font_size = ''1.5rem'',
       font_family = ''sans-serif'',
       layout_style = ''minimal'', spacing = ''normal'', border_radius = ''0px'',
       use_shadows = False, use_gradients = True, animation_style = ''none'',
       chart_colors = [''red'', ''green'', ''blue''] \<rparr>"

definition prose_wrapped :: "string \<Rightarrow> string" where
  "prose_wrapped payload =
     ''Here is the JSON you asked for:\<newline>```json\<newline>'' @ payload @
     ''\<newline>```\<newline>Let me know if you need changes.''"

definition small_payload :: string where
  "small_payload = ''{\"title\": \"Q3 review\", \"pages\": 3}''"

text \<open>A context that asks for speech notes.\<close>

definition keynote_context :: GlobalContext where
  "keynote_context =
     \<lparr> gc_ppt_title = ''Demo'', gc_style = ''ted'', gc_colors = [(''primary'', ''#dc2626'')],
       gc_total_slides = 5, speech_scene = Some ''keynote for investors'' \<rparr>"

text \<open>A project as it is created, and a run in which everything works.\<close>

definition stored_project :: project where
  "stored_project = \<lparr> p_status = PENDING, p_progress = 0, p_error_message = None, p_output_path = None \<rparr>"

definition failed_search :: search_result where
  "failed_search = \<lparr> sr_status = Some ''error'', sr_error = Some ''no results'',
                     sr_output_path = None, sr_project_dir = None \<rparr>"

definition env_good :: task_env where
  "env_good = \<lparr> query_result = Inr (Some stored_project), commit_raises = (\<lambda>k. None),
       init_raises = None, context_raises = None,
       search_reply = Inr \<lparr> sr_status = Some ''success'', sr_error = None,
                             sr_output_path = Some ''out/report.md'', sr_project_dir = None \<rparr>,
       metadata_raises = None, path_exists = (\<lambda>p. True), getsize_raises = None \<rparr>"

section \<open>Results\<close>

subsection \<open>Decimal formatting of slide numbers\<close>

lemma digit_char_is_digit: "d < 10 \<Longrightarrow> digit_char d \<in> set ''0123456789''"
proof -
  assume "d < 10"
  then have "d \<in> {0,1,2,3,4,5,6,7,8,9}" by auto
  then show ?thesis by (auto simp: digit_char_def)
qed

lemma digit_char_inj: "a < 10 \<Longrightarrow> b < 10 \<Longrightarrow> digit_char a = digit_char b \<Longrightarrow> a = b"
proof -
  assume "a < 10" "b < 10" and eq: "digit_char a = digit_char b"
  have d: "distinct ''0123456789''" by simp
  have "length ''0123456789'' = 10" by simp
  with \<open>a < 10\<close> \<open>b < 10\<close> d eq show ?thesis
    unfolding digit_char_def by (metis nth_eq_iff_index_eq)
qed

lemma digit_char_zero: "d < 10 \<Longrightarrow> digit_char d = CHR ''0'' \<Longrightarrow> d = 0"
  using digit_char_inj [of d 0] by (simp add: digit_char_def)

lemma str_nat_digits: "set (str_nat n) \<subseteq> set ''0123456789''"
proof (induction n rule: str_nat.induct)
  case (1 n)
  show ?case
  proof (cases "n < 10")
    case True
    then show ?thesis using digit_char_is_digit [of n] by (subst str_nat.simps) simp
  next
    case False
    have "n mod 10 < 10" by simp
    then have "digit_char (n mod 10) \<in> set ''0123456789''" by (rule digit_char_is_digit)
    with False 1 show ?thesis by (subst str_nat.simps) simp
  qed
qed

lemma str_nat_nonempty: "str_nat n \<noteq> []"
  by (subst str_nat.simps) simp

lemma str_nat_length1: "length (str_nat n) = Suc 0 \<longleftrightarrow> n < 10"
proof (cases "n < 10")
  case True then show ?thesis by (subst str_nat.simps) simp
next
  case False
  have "length (str_nat n) = length (str_nat (n div 10)) + 1"
    using False by (subst str_nat.simps) simp
  moreover have "length (str_nat (n div 10)) > 0" using str_nat_nonempty by simp
  ultimately show ?thesis using False by simp
qed

lemma str_nat_hd: "0 < n \<Longrightarrow> hd (str_nat n) \<noteq> CHR ''0''"
proof (induction n rule: str_nat.induct)
  case (1 n)
  show ?case
  proof (cases "n < 10")
    case True
    then have "str_nat n = [digit_char n]" by (subst str_nat.simps) simp
    with True 1(2) show ?thesis using digit_char_zero [of n] by auto
  next
    case False
    then have e: "str_nat n = str_nat (n div 10) @ [digit_char (n mod 10)]"
      by (subst str_nat.simps) simp
    from False have "0 < n div 10" by simp
    with 1(1) False have "hd (str_nat (n div 10)) \<noteq> CHR ''0''" by simp
    with e show ?thesis using str_nat_nonempty [of "n div 10"] by simp
  qed
qed

lemma str_nat_inj: "str_nat a = str_nat b \<Longrightarrow> a = b"
proof (induction a arbitrary: b rule: str_nat.induct)
  case (1 n)
  show ?case
  proof (cases "n < 10")
    case True
    then have en: "str_nat n = [digit_char n]" by (subst str_nat.simps) simp
    with 1(2) have "length (str_nat b) = Suc 0" by (metis length_Cons list.size(3))
    then have b: "b < 10" by (simp add: str_nat_length1)
    then have "str_nat b = [digit_char b]" by (subst str_nat.simps) simp
    with en 1(2) True b show ?thesis using digit_char_inj by simp
  next
    case False
    then have en: "str_nat n = str_nat (n div 10) @ [digit_char (n mod 10)]"
      by (subst str_nat.simps) simp
    from False have "length (str_nat n) \<noteq> Suc 0" by (simp add: str_nat_length1)
    with 1(2) have b: "\<not> b < 10" by (simp add: str_nat_length1)
    then have eb: "str_nat b = str_nat (b div 10) @ [digit_char (b mod 10)]"
      by (subst str_nat.simps) simp
    from en eb 1(2) have q: "str_nat (n div 10) = str_nat (b div 10)"
      and r: "digit_char (n mod 10) = digit_char (b mod 10)" by simp_all
    from 1(1) [OF False q] have "n div 10 = b div 10" .
    moreover from r have "n mod 10 = b mod 10" using digit_char_inj [of "n mod 10" "b mod 10"] by simp
    ultimately show ?thesis by (metis div_mult_mod_eq)
  qed
qed

lemma fmt_02d_digits: "set (fmt_02d n) \<subseteq> set ''0123456789''"
  using str_nat_digits [of n] by (auto simp: fmt_02d_def Let_def)

lemma fmt_02d_inj: "fmt_02d a = fmt_02d b \<Longrightarrow> a = b"
proof -
  assume eq: "fmt_02d a = fmt_02d b"
  have f: "fmt_02d n = (if n < 10 then CHR ''0'' # str_nat n else str_nat n)" for n
  proof (cases "n < 10")
    case True
    then have "length (str_nat n) = Suc 0" by (simp add: str_nat_length1)
    with True show ?thesis by (simp add: fmt_02d_def Let_def)
  next
    case False
    then have "length (str_nat n) \<noteq> Suc 0" by (simp add: str_nat_length1)
    moreover have "length (str_nat n) \<noteq> 0" using str_nat_nonempty by simp
    ultimately have "2 - length (str_nat n) = 0" by arith
    with False show ?thesis by (simp add: fmt_02d_def Let_def)
  qed
  have h: "hd (str_nat n) \<noteq> CHR ''0''" if "\<not> n < 10" for n
    using that str_nat_hd [of n] by simp
  show ?thesis
  proof (cases "a < 10"; cases "b < 10")
    assume "a < 10" "b < 10"
    with eq f show ?thesis using str_nat_inj by simp
  next
    assume "a < 10" "\<not> b < 10"
    with eq f [of a] f [of b] have "CHR ''0'' # str_nat a = str_nat b" by simp
    then have "hd (str_nat b) = CHR ''0''" by (metis list.sel(1))
    with h [of b] \<open>\<not> b < 10\<close> show ?thesis by simp
  next
    assume "\<not> a < 10" "b < 10"
    with eq f [of a] f [of b] have "CHR ''0'' # str_nat b = str_nat a" by simp
    then have "hd (str_nat a) = CHR ''0''" by (metis list.sel(1))
    with h [of a] \<open>\<not> a < 10\<close> show ?thesis by simp
  next
    assume "\<not> a < 10" "\<not> b < 10"
    with eq f show ?thesis using str_nat_inj by simp
  qed
qed

lemma slide_file_inj: "slide_file a t = slide_file b u \<Longrightarrow> a = b"
proof -
  assume "slide_file a t = slide_file b u"
  then have eq: "fmt_02d a @ (''_'' @ t @ ''.html'') = fmt_02d b @ (''_'' @ u @ ''.html'')"
    by (simp add: slide_file_def)
  let ?P = "\<lambda>c. c \<in> set ''0123456789''"
  have "takeWhile ?P (fmt_02d n @ (''_'' @ w @ ''.html'')) = fmt_02d n" for n w
  proof -
    have "\<And>x. x \<in> set (fmt_02d n) \<Longrightarrow> ?P x" using fmt_02d_digits [of n] by blast
    then have "takeWhile ?P (fmt_02d n @ (''_'' @ w @ ''.html''))
             = fmt_02d n @ takeWhile ?P (''_'' @ w @ ''.html'')"
      by (rule takeWhile_append2)
    then show ?thesis by simp
  qed
  with eq have "fmt_02d a = fmt_02d b" by metis
  then show ?thesis by (rule fmt_02d_inj)
qed

subsection \<open>The adjacency chain of the metadata\<close>

lemma slides_length [simp]:
  "length (slides (create_slides_metadata t sd cfg)) = length sd"
  by (simp add: create_slides_metadata_def)

lemma slides_nth:
  "i < length sd \<Longrightarrow> slides (create_slides_metadata t sd cfg) ! i = slide_meta_at sd i"
  by (simp add: create_slides_metadata_def)

lemma meta_at_number [simp]: "slide_number (slide_meta_at sd i) = Suc i"
  by (simp add: slide_meta_at_def Let_def)

lemma meta_at_file [simp]: "file_name (slide_meta_at sd i) = slide_file (Suc i) (get_type (sd ! i))"
  by (simp add: slide_meta_at_def Let_def)

lemma meta_at_prev:
  "prev (slide_meta_at sd i) = (if 0 < i then Some (file_name (slide_meta_at sd (i - 1))) else None)"
  by (simp add: slide_meta_at_def Let_def)

lemma meta_at_next:
  "next (slide_meta_at sd i) =
     (if Suc i < length sd then Some (file_name (slide_meta_at sd (Suc i))) else None)"
  by (simp add: slide_meta_at_def Let_def)

lemma meta_files_distinct: "distinct (map file_name (map (slide_meta_at sd) [0 ..< n]))"
proof -
  have "inj_on (\<lambda>i. file_name (slide_meta_at sd i)) (set [0 ..< n])"
    by (rule inj_onI) (auto dest: slide_file_inj)
  then show ?thesis by (simp add: distinct_map comp_def)
qed

lemma find_by_key:
  "distinct (map f xs) \<Longrightarrow> j < length xs \<Longrightarrow> find (\<lambda>x. f x = f (xs ! j)) xs = Some (xs ! j)"
proof -
  assume d: "distinct (map f xs)" and j: "j < length xs"
  have "\<And>i. i < j \<Longrightarrow> f (xs ! i) \<noteq> f (xs ! j)"
  proof
    fix i assume "i < j" and "f (xs ! i) = f (xs ! j)"
    with j have "map f xs ! i = map f xs ! j" by simp
    moreover have "i < length (map f xs)" "j < length (map f xs)" using j \<open>i < j\<close> by simp_all
    ultimately have "i = j" using d nth_eq_iff_index_eq by blast
    with \<open>i < j\<close> show False by simp
  qed
  with j show ?thesis by (auto simp: find_Some_iff)
qed

lemma traverse_next_drop:
  assumes ms: "ms = map (slide_meta_at sd) [0 ..< length sd]"
  shows "i < length sd \<Longrightarrow> length sd - Suc i \<le> k \<Longrightarrow> traverse_next k ms (ms ! i) = drop i ms"
proof (induction k arbitrary: i)
  case 0
  then have "Suc i = length sd" by simp
  then have "drop i ms = [ms ! i]" using ms
    by (metis Cons_nth_drop_Suc drop_all length_map length_upt lessI minus_nat.diff_0 order_refl)
  then show ?case by simp
next
  case (Suc k)
  have len: "length ms = length sd" using ms by simp
  have at: "ms ! j = slide_meta_at sd j" if "j < length sd" for j using ms that by simp
  show ?case
  proof (cases "Suc i < length sd")
    case False
    with Suc.prems have "Suc i = length sd" by simp
    then have "drop i ms = [ms ! i]" using len
      by (metis Cons_nth_drop_Suc drop_all lessI order_refl)
    moreover have "next (ms ! i) = None" using False Suc.prems at by (simp add: meta_at_next)
    ultimately show ?thesis by simp
  next
    case True
    then have n: "next (ms ! i) = Some (file_name (ms ! Suc i))"
      using Suc.prems at by (simp add: meta_at_next)
    have d: "distinct (map file_name ms)" unfolding ms by (rule meta_files_distinct)
    have f: "find (\<lambda>m'. file_name m' = file_name (ms ! Suc i)) ms = Some (ms ! Suc i)"
      using find_by_key [OF d, of "Suc i"] True len by simp
    have "traverse_next k ms (ms ! Suc i) = drop (Suc i) ms"
      using Suc.IH [of "Suc i"] True Suc.prems by simp
    with n f have "traverse_next (Suc k) ms (ms ! i) = ms ! i # drop (Suc i) ms" by simp
    then show ?thesis using Suc.prems len by (simp add: Cons_nth_drop_Suc)
  qed
qed


text \<open>
  C8.  For a non-empty list of slides, the metadata computed before generation is one
  linear chain: as many entries as slides, numbered 1, 2, ... without gaps; the first has
  no \<^verbatim>\<open>prev\<close>, the last no \<^verbatim>\<open>next\<close>; every other pointer is the file name of the entry at
  the adjacent ordinal; file names are pairwise distinct, so a pointer names one slide; and
  following \<^verbatim>\<open>next\<close> from the first entry, for any number of steps that is at least the
  number of the remaining slides, yields exactly the list of entries, each once, in order.
\<close>

theorem metadata_linear_chain:
  assumes ne: "slides_data \<noteq> []"
    and ms: "ms = slides (create_slides_metadata t slides_data config)"
  shows "length ms = length slides_data
       \<and> map slide_number ms = [1 ..< Suc (length ms)]
       \<and> prev (hd ms) = None
       \<and> next (last ms) = None
       \<and> (\<forall>i. 0 < i \<and> i < length ms \<longrightarrow> prev (ms ! i) = Some (file_name (ms ! (i - 1))))
       \<and> (\<forall>i. Suc i < length ms \<longrightarrow> next (ms ! i) = Some (file_name (ms ! Suc i)))
       \<and> distinct (map file_name ms)
       \<and> (\<forall>k. length ms - 1 \<le> k \<longrightarrow> traverse_next k ms (hd ms) = ms)"
proof -
  have ms': "ms = map (slide_meta_at slides_data) [0 ..< length slides_data]"
    using ms by (simp add: create_slides_metadata_def)
  have len: "length ms = length slides_data" using ms' by simp
  have at: "ms ! j = slide_meta_at slides_data j" if "j < length slides_data" for j
    using ms' that by simp
  from ne have pos: "0 < length slides_data" by simp
  have "map slide_number ms = map Suc [0 ..< length ms]"
    by (rule nth_equalityI) (simp_all add: len at)
  then have nums: "map slide_number ms = [1 ..< Suc (length ms)]"
    by (simp add: map_Suc_upt)
  have msne: "ms \<noteq> []" using pos len by auto
  have "hd ms = ms ! 0" using msne by (rule hd_conv_nth)
  then have p: "prev (hd ms) = None" using at [OF pos] by (simp add: meta_at_prev)
  have "last ms = ms ! (length slides_data - 1)" using msne len by (simp add: last_conv_nth)
  then have n: "next (last ms) = None" using at [of "length slides_data - 1"] pos
    by (simp add: meta_at_next)
  have ps: "\<forall>i. 0 < i \<and> i < length ms \<longrightarrow> prev (ms ! i) = Some (file_name (ms ! (i - 1)))"
  proof (intro allI impI)
    fix i assume i: "0 < i \<and> i < length ms"
    then have "i < length slides_data" "i - 1 < length slides_data" using len by auto
    then have "ms ! i = slide_meta_at slides_data i" "ms ! (i - 1) = slide_meta_at slides_data (i - 1)"
      by (simp_all only: at)
    with i show "prev (ms ! i) = Some (file_name (ms ! (i - 1)))" by (simp add: meta_at_prev)
  qed
  have ns: "\<forall>i. Suc i < length ms \<longrightarrow> next (ms ! i) = Some (file_name (ms ! Suc i))"
  proof (intro allI impI)
    fix i assume i: "Suc i < length ms"
    then have "i < length slides_data" "Suc i < length slides_data" using len by simp_all
    then have "ms ! i = slide_meta_at slides_data i" "ms ! Suc i = slide_meta_at slides_data (Suc i)"
      by (simp_all only: at)
    with i len show "next (ms ! i) = Some (file_name (ms ! Suc i))" by (simp add: meta_at_next)
  qed
  have d: "distinct (map file_name ms)" unfolding ms' by (rule meta_files_distinct)
  have tr: "\<forall>k. length ms - 1 \<le> k \<longrightarrow> traverse_next k ms (hd ms) = ms"
  proof (intro allI impI)
    fix k assume "length ms - 1 \<le> k"
    then have "traverse_next k ms (ms ! 0) = drop 0 ms"
      using traverse_next_drop [OF ms', of 0 k] pos len by simp
    then show "traverse_next k ms (hd ms) = ms" using \<open>hd ms = ms ! 0\<close> by simp
  qed
  from len nums p n ps ns d tr show ?thesis by blast
qed

theorem metadata_linear_chain_witness:
  "deck5 \<noteq> []
   \<and> map slide_number (slides (create_slides_metadata [] deck5 config0)) = [1, 2, 3, 4, 5]
   \<and> prev (hd (slides (create_slides_metadata [] deck5 config0))) = None
   \<and> next (last (slides (create_slides_metadata [] deck5 config0))) = None
   \<and> distinct (map file_name (slides (create_slides_metadata [] deck5 config0)))
   \<and> traverse_next 7 (slides (create_slides_metadata [] deck5 config0))
        (hd (slides (create_slides_metadata [] deck5 config0)))
      = slides (create_slides_metadata [] deck5 config0)"
proof -
  let ?ms = "slides (create_slides_metadata [] deck5 config0)"
  have h: "deck5 \<noteq> []" by (simp add: deck5_def)
  have l: "length deck5 = 5" by (simp add: deck5_def)
  have u: "[1 ..< Suc 5] = [1, 2, 3, 4, 5::nat]" by (simp add: upt_rec)
  note c = metadata_linear_chain [OF h refl, of "[]" config0]
  from c l have len: "length ?ms = 5" by simp
  from c have "map slide_number ?ms = [1 ..< Suc (length ?ms)]" by blast
  with len u have n: "map slide_number ?ms = [1, 2, 3, 4, 5]" by (simp only:)
  from c have p: "prev (hd ?ms) = None" and nx: "next (last ?ms) = None"
    and d: "distinct (map file_name ?ms)" by blast+
  from c have "\<forall>k. length ?ms - 1 \<le> k \<longrightarrow> traverse_next k ?ms (hd ?ms) = ?ms" by blast
  with len have t: "traverse_next 7 ?ms (hd ?ms) = ?ms" by simp
  from h n p nx d t show ?thesis by blast
qed

subsection \<open>generate_ppt\<close>

lemma path_join_current_and_root:
  "path_join ''.'' ''ppt'' = ''ppt'' \<and> path_join ''/'' ''ppt'' = ''/ppt''
   \<and> path_join ''out'' ''ppt'' = ''out/ppt''"
  by (simp add: path_join_def)

lemma generate_ppt_try_cases:
  "generate_ppt_try e sd cfg out =
    (case create_directory_structure e out of
       Inl x \<Rightarrow> (Inl x, [])
     | Inr dir \<Rightarrow>
        (case save_metadata e (create_slides_metadata (now e) sd cfg) dir of
           Inl x \<Rightarrow> (Inl x, slide_writes 1 (gather_slides e sd (create_slides_metadata (now e) sd cfg) dir)
                            @ generate_navigation_pages e (create_slides_metadata (now e) sd cfg) dir)
         | Inr w \<Rightarrow>
            (Inr \<lparr> status = ''success'', error = None, ppt_dir = Some dir,
                   res_total_slides = Some (length sd),
                   slide_files = Some (generate_all_slides e sd (create_slides_metadata (now e) sd cfg) dir),
                   index_page = Some (path_join dir ''index.html''),
                   presenter_page = Some (path_join dir ''presenter.html'') \<rparr>,
             slide_writes 1 (gather_slides e sd (create_slides_metadata (now e) sd cfg) dir)
               @ generate_navigation_pages e (create_slides_metadata (now e) sd cfg) dir @ w)))"
  by (simp add: generate_ppt_try_def Let_def split: sum.splits)

lemma create_directory_structure_dir:
  "create_directory_structure e out = Inr dir \<Longrightarrow> dir = path_join out ''ppt''"
  by (auto simp: create_directory_structure_def Let_def split: option.splits)

lemma keep_paths_filter: "keep_paths rs = map projr (filter (\<lambda>x. \<not> isl x) rs)"
  by (induction rs rule: keep_paths.induct) simp_all

lemma single_slide_path:
  "generate_single_slide e d m dir = Inr p \<Longrightarrow> p = path_join (path_join dir ''slides'') (file_name m)"
  by (auto simp: generate_single_slide_def Let_def split: option.splits if_splits)

lemma gather_slides_eq:
  "gather_slides e sd (create_slides_metadata t sd cfg) dir =
     map (\<lambda>i. generate_single_slide e (sd ! i) (slide_meta_at sd i) dir) [0 ..< length sd]"
  by (simp add: gather_slides_def create_slides_metadata_def)

lemma keep_paths_map:
  "keep_paths (map (\<lambda>i. generate_single_slide e (d i) (M i) dir) xs) =
     map (\<lambda>i. path_join (path_join dir ''slides'') (file_name (M i)))
         (filter (\<lambda>i. \<not> isl (generate_single_slide e (d i) (M i) dir)) xs)"
proof (induction xs)
  case Nil
  show ?case by simp
next
  case (Cons i xs)
  show ?case
  proof (cases "generate_single_slide e (d i) (M i) dir")
    case (Inl x)
    with Cons show ?thesis by simp
  next
    case (Inr p)
    then have "p = path_join (path_join dir ''slides'') (file_name (M i))"
      by (rule single_slide_path)
    with Inr Cons show ?thesis by simp
  qed
qed

lemma slides_eq:
  "slides (create_slides_metadata t sd cfg) = map (slide_meta_at sd) [0 ..< length sd]"
  by (simp add: create_slides_metadata_def)

lemma surviving_files:
  "keep_paths (gather_slides e sd (create_slides_metadata t sd cfg) dir) =
     map (\<lambda>m. path_join (path_join dir ''slides'') (file_name m))
       (filter (\<lambda>m. \<not> isl (generate_single_slide e (sd ! (slide_number m - 1)) m dir))
          (slides (create_slides_metadata t sd cfg)))"
proof -
  let ?ok = "\<lambda>i. \<not> isl (generate_single_slide e (sd ! i) (slide_meta_at sd i) dir)"
  have "keep_paths (gather_slides e sd (create_slides_metadata t sd cfg) dir)
      = map (\<lambda>i. path_join (path_join dir ''slides'') (file_name (slide_meta_at sd i)))
          (filter ?ok [0 ..< length sd])"
    unfolding gather_slides_eq by (rule keep_paths_map)
  also have "\<dots> = map (\<lambda>m. path_join (path_join dir ''slides'') (file_name m))
                     (map (slide_meta_at sd) (filter ?ok [0 ..< length sd]))"
    by (simp only: map_map comp_def)
  also have "map (slide_meta_at sd) (filter ?ok [0 ..< length sd])
           = filter (\<lambda>m. \<not> isl (generate_single_slide e (sd ! (slide_number m - 1)) m dir))
               (map (slide_meta_at sd) [0 ..< length sd])"
    by (simp add: filter_map comp_def)
  finally show ?thesis by (simp only: slides_eq)
qed

lemma navigation_pages_metadata:
  "(p, c) \<in> set (generate_navigation_pages e md dir) \<Longrightarrow> content_metadata c = Some md"
  by (auto simp: generate_navigation_pages_def generate_page_def content_metadata_def
           split: option.splits)

lemma slide_writes_metadata:
  "(p, c) \<in> set (slide_writes n rs) \<Longrightarrow> content_metadata c = None"
  by (induction n rs rule: slide_writes.induct) (auto simp: content_metadata_def)

lemma save_metadata_metadata:
  "save_metadata e md dir = Inr w \<Longrightarrow> (p, c) \<in> set w \<Longrightarrow> content_metadata c = Some md"
  by (auto simp: save_metadata_def Let_def content_metadata_def split: option.splits)

lemma generate_ppt_files:
  "snd (generate_ppt e sd cfg out) = snd (generate_ppt_try e sd cfg out)"
  by (simp add: generate_ppt_def split: prod.splits sum.splits)

text \<open>
  C10.  Whatever the slides, the configuration, the output directory and the environment,
  \<^verbatim>\<open>generate_ppt\<close> returns a dictionary with status \<^verbatim>\<open>success\<close> or \<^verbatim>\<open>error\<close> and lets no
  exception through.  An exception that leaves one of its steps is turned into the error
  dictionary with its text: the one of \<^verbatim>\<open>_create_directory_structure\<close>, and, once the
  directories exist, the one of \<^verbatim>\<open>_save_metadata\<close>; so is whatever leaves the \<^verbatim>\<open>try\<close> block.
  When neither step raises, the dictionary is the success form, with the output directory,
  the number of slides, the files of the slides that were generated and the two entry
  pages.  The other steps let nothing out: \<^verbatim>\<open>_generate_all_slides\<close> collects the
  exceptions of the slides and the two navigation pages catch their own.
\<close>

theorem generate_ppt_total:
  "(\<exists>r. fst (generate_ppt e sd cfg out) = Inr r \<and> (status r = ''success'' \<or> status r = ''error''))
   \<and> (\<forall>x. fst (generate_ppt_try e sd cfg out) = Inl x \<longrightarrow>
         fst (generate_ppt e sd cfg out) =
           Inr \<lparr> status = ''error'', error = Some (str_of x), ppt_dir = None,
                  res_total_slides = None, slide_files = None,
                  index_page = None, presenter_page = None \<rparr>)
   \<and> (\<forall>x. create_directory_structure e out = Inl x \<longrightarrow>
         fst (generate_ppt_try e sd cfg out) = Inl x
         \<and> fst (generate_ppt e sd cfg out) =
           Inr \<lparr> status = ''error'', error = Some (str_of x), ppt_dir = None,
                  res_total_slides = None, slide_files = None,
                  index_page = None, presenter_page = None \<rparr>)
   \<and> (\<forall>dir x. create_directory_structure e out = Inr dir
         \<and> save_metadata e (create_slides_metadata (now e) sd cfg) dir = Inl x \<longrightarrow>
         fst (generate_ppt_try e sd cfg out) = Inl x
         \<and> fst (generate_ppt e sd cfg out) =
           Inr \<lparr> status = ''error'', error = Some (str_of x), ppt_dir = None,
                  res_total_slides = None, slide_files = None,
                  index_page = None, presenter_page = None \<rparr>)
   \<and> (\<forall>dir w. create_directory_structure e out = Inr dir
         \<and> save_metadata e (create_slides_metadata (now e) sd cfg) dir = Inr w \<longrightarrow>
         dir = path_join out ''ppt''
         \<and> fst (generate_ppt e sd cfg out) =
           Inr \<lparr> status = ''success'', error = None, ppt_dir = Some dir,
                  res_total_slides = Some (length sd),
                  slide_files = Some (generate_all_slides e sd
                                        (create_slides_metadata (now e) sd cfg) dir),
                  index_page = Some (path_join dir ''index.html''),
                  presenter_page = Some (path_join dir ''presenter.html'') \<rparr>)"
proof (intro conjI allI impI)
  show "\<exists>r. fst (generate_ppt e sd cfg out) = Inr r \<and> (status r = ''success'' \<or> status r = ''error'')"
  proof (cases "create_directory_structure e out")
    case (Inl x)
    then show ?thesis by (simp add: generate_ppt_def generate_ppt_try_cases)
  next
    case (Inr dir)
    then show ?thesis
      by (cases "save_metadata e (create_slides_metadata (now e) sd cfg) dir")
         (simp_all add: generate_ppt_def generate_ppt_try_cases)
  qed
next
  fix x assume "fst (generate_ppt_try e sd cfg out) = Inl x"
  then show "fst (generate_ppt e sd cfg out) =
           Inr \<lparr> status = ''error'', error = Some (str_of x), ppt_dir = None,
                  res_total_slides = None, slide_files = None,
                  index_page = None, presenter_page = None \<rparr>"
    by (cases "generate_ppt_try e sd cfg out") (simp add: generate_ppt_def)
next
  fix x assume "create_directory_structure e out = Inl x"
  then show "fst (generate_ppt_try e sd cfg out) = Inl x"
    by (simp add: generate_ppt_try_cases)
next
  fix x assume "create_directory_structure e out = Inl x"
  then show "fst (generate_ppt e sd cfg out) =
           Inr \<lparr> status = ''error'', error = Some (str_of x), ppt_dir = None,
                  res_total_slides = None, slide_files = None,
                  index_page = None, presenter_page = None \<rparr>"
    by (simp add: generate_ppt_def generate_ppt_try_cases)
next
  fix dir x
  assume "create_directory_structure e out = Inr dir
         \<and> save_metadata e (create_slides_metadata (now e) sd cfg) dir = Inl x"
  then show "fst (generate_ppt_try e sd cfg out) = Inl x"
    by (simp add: generate_ppt_try_cases)
next
  fix dir x
  assume "create_directory_structure e out = Inr dir
         \<and> save_metadata e (create_slides_metadata (now e) sd cfg) dir = Inl x"
  then show "fst (generate_ppt e sd cfg out) =
           Inr \<lparr> status = ''error'', error = Some (str_of x), ppt_dir = None,
                  res_total_slides = None, slide_files = None,
                  index_page = None, presenter_page = None \<rparr>"
    by (simp add: generate_ppt_def generate_ppt_try_cases)
next
  fix dir w
  assume "create_directory_structure e out = Inr dir
         \<and> save_metadata e (create_slides_metadata (now e) sd cfg) dir = Inr w"
  then show "dir = path_join out ''ppt''" by (auto dest: create_directory_structure_dir)
next
  fix dir w
  assume "create_directory_structure e out = Inr dir
         \<and> save_metadata e (create_slides_metadata (now e) sd cfg) dir = Inr w"
  then show "fst (generate_ppt e sd cfg out) =
           Inr \<lparr> status = ''success'', error = None, ppt_dir = Some dir,
                  res_total_slides = Some (length sd),
                  slide_files = Some (generate_all_slides e sd
                                        (create_slides_metadata (now e) sd cfg) dir),
                  index_page = Some (path_join dir ''index.html''),
                  presenter_page = Some (path_join dir ''presenter.html'') \<rparr>"
    by (simp add: generate_ppt_def generate_ppt_try_cases)
qed

theorem generate_ppt_total_witness:
  "create_directory_structure env_mkdir_raises ''out'' = Inl (Exception ''Permission denied'')
   \<and> fst (generate_ppt env_mkdir_raises deck5 config0 ''out'') =
       Inr \<lparr> status = ''error'', error = Some ''Permission denied'', ppt_dir = None,
              res_total_slides = None, slide_files = None,
              index_page = None, presenter_page = None \<rparr>
   \<and> save_metadata env_save_raises (create_slides_metadata (now env_save_raises) deck5 config0)
        ''out/ppt'' = Inl (Exception ''No space left on device'')
   \<and> fst (generate_ppt env_save_raises deck5 config0 ''out'') =
       Inr \<lparr> status = ''error'', error = Some ''No space left on device'', ppt_dir = None,
              res_total_slides = None, slide_files = None,
              index_page = None, presenter_page = None \<rparr>
   \<and> fst (generate_ppt env_slide3_raises deck5 config0 ''out'') =
       Inr \<lparr> status = ''success'', error = None, ppt_dir = Some ''out/ppt'',
              res_total_slides = Some 5,
              slide_files = Some (generate_all_slides env_slide3_raises deck5
                 (create_slides_metadata (now env_slide3_raises) deck5 config0) ''out/ppt''),
              index_page = Some ''out/ppt/index.html'',
              presenter_page = Some ''out/ppt/presenter.html'' \<rparr>"
proof -
  have m: "create_directory_structure env_mkdir_raises ''out'' = Inl (Exception ''Permission denied'')"
    by code_simp
  have d2: "create_directory_structure env_save_raises ''out'' = Inr ''out/ppt''" by code_simp
  have s2: "save_metadata env_save_raises (create_slides_metadata (now env_save_raises) deck5 config0)
              ''out/ppt'' = Inl (Exception ''No space left on device'')"
    by code_simp
  have d3: "create_directory_structure env_slide3_raises ''out'' = Inr ''out/ppt''" by code_simp
  have s3: "save_metadata env_slide3_raises
              (create_slides_metadata (now env_slide3_raises) deck5 config0) ''out/ppt''
            = Inr [(''out/ppt/data/slides_metadata.json'',
                    Json (create_slides_metadata (now env_slide3_raises) deck5 config0))]"
    by code_simp
  have l: "length deck5 = 5" by (simp add: deck5_def)
  have p1: "path_join ''out/ppt'' ''index.html'' = ''out/ppt/index.html''" by code_simp
  have p2: "path_join ''out/ppt'' ''presenter.html'' = ''out/ppt/presenter.html''" by code_simp
  note t1 = generate_ppt_total [of env_mkdir_raises deck5 config0 "''out''"]
  note t2 = generate_ppt_total [of env_save_raises deck5 config0 "''out''"]
  note t3 = generate_ppt_total [of env_slide3_raises deck5 config0 "''out''"]
  from t1 m have r1: "fst (generate_ppt env_mkdir_raises deck5 config0 ''out'') =
       Inr \<lparr> status = ''error'', error = Some ''Permission denied'', ppt_dir = None,
              res_total_slides = None, slide_files = None,
              index_page = None, presenter_page = None \<rparr>"
    by simp
  from t2 d2 s2 have r2: "fst (generate_ppt env_save_raises deck5 config0 ''out'') =
       Inr \<lparr> status = ''error'', error = Some ''No space left on device'', ppt_dir = None,
              res_total_slides = None, slide_files = None,
              index_page = None, presenter_page = None \<rparr>"
    by simp
  from t3 d3 s3 have "fst (generate_ppt env_slide3_raises deck5 config0 ''out'') =
       Inr \<lparr> status = ''success'', error = None, ppt_dir = Some ''out/ppt'',
              res_total_slides = Some (length deck5),
              slide_files = Some (generate_all_slides env_slide3_raises deck5
                 (create_slides_metadata (now env_slide3_raises) deck5 config0) ''out/ppt''),
              index_page = Some (path_join ''out/ppt'' ''index.html''),
              presenter_page = Some (path_join ''out/ppt'' ''presenter.html'') \<rparr>"
    by blast
  with l p1 p2 have r3: "fst (generate_ppt env_slide3_raises deck5 config0 ''out'') =
       Inr \<lparr> status = ''success'', error = None, ppt_dir = Some ''out/ppt'',
              res_total_slides = Some 5,
              slide_files = Some (generate_all_slides env_slide3_raises deck5
                 (create_slides_metadata (now env_slide3_raises) deck5 config0) ''out/ppt''),
              index_page = Some ''out/ppt/index.html'',
              presenter_page = Some ''out/ppt/presenter.html'' \<rparr>"
    by (simp only:)
  from m r1 s2 r2 r3 show ?thesis by blast
qed

text \<open>
  C1, as the code has it.  Once the directories exist, the manifest is the metadata computed
  before generation, over all slides: it has one entry per slide whatever fails, and every
  page or JSON file written from a manifest is written from that one.  Failed slides are
  missing only from the returned list of slide files, which holds the files of the slides
  that were generated, in the order of the slides.
\<close>

theorem manifest_not_recomputed:
  assumes d: "create_directory_structure e out = Inr dir"
    and md: "md = create_slides_metadata (now e) sd cfg"
  shows "length (slides md) = length sd
       \<and> (\<forall>p c. (p, c) \<in> set (snd (generate_ppt e sd cfg out)) \<longrightarrow>
             content_metadata c = None \<or> content_metadata c = Some md)
       \<and> (\<forall>r. fst (generate_ppt e sd cfg out) = Inr r \<and> status r = ''success'' \<longrightarrow>
             slide_files r =
               Some (map (\<lambda>m. path_join (path_join dir ''slides'') (file_name m))
                      (filter (\<lambda>m. \<not> isl (generate_single_slide e (sd ! (slide_number m - 1)) m dir))
                         (slides md))))"
proof (intro conjI allI impI)
  show "length (slides md) = length sd" by (simp add: md create_slides_metadata_def)
next
  fix p c assume pc: "(p, c) \<in> set (snd (generate_ppt e sd cfg out))"
  show "content_metadata c = None \<or> content_metadata c = Some md"
  proof (cases "save_metadata e md dir")
    case (Inl x)
    with pc d md have "(p, c) \<in> set (slide_writes 1 (gather_slides e sd md dir))
                     \<or> (p, c) \<in> set (generate_navigation_pages e md dir)"
      by (simp add: generate_ppt_files generate_ppt_try_cases)
    then show ?thesis using slide_writes_metadata navigation_pages_metadata by blast
  next
    case (Inr w)
    with pc d md have "(p, c) \<in> set (slide_writes 1 (gather_slides e sd md dir))
                     \<or> (p, c) \<in> set (generate_navigation_pages e md dir) \<or> (p, c) \<in> set w"
      by (simp add: generate_ppt_files generate_ppt_try_cases)
    then show ?thesis
      using slide_writes_metadata navigation_pages_metadata save_metadata_metadata [OF Inr] by blast
  qed
next
  fix r assume r: "fst (generate_ppt e sd cfg out) = Inr r \<and> status r = ''success''"
  then have "slide_files r = Some (keep_paths (gather_slides e sd md dir))"
    using d md by (auto simp: generate_ppt_def generate_ppt_try_cases generate_all_slides_def split: sum.splits)
  then show "slide_files r =
               Some (map (\<lambda>m. path_join (path_join dir ''slides'') (file_name m))
                      (filter (\<lambda>m. \<not> isl (generate_single_slide e (sd ! (slide_number m - 1)) m dir))
                         (slides md)))"
    by (simp add: md surviving_files)
qed

theorem manifest_not_recomputed_witness:
  "create_directory_structure env_slide3_raises ''out'' = Inr ''out/ppt''
   \<and> length (slides (create_slides_metadata (now env_slide3_raises) deck5 config0)) = length deck5
   \<and> slide_files (projr (fst (generate_ppt env_slide3_raises deck5 config0 ''out''))) =
       Some (map (\<lambda>m. path_join (path_join ''out/ppt'' ''slides'') (file_name m))
              (filter (\<lambda>m. \<not> isl (generate_single_slide env_slide3_raises
                                       (deck5 ! (slide_number m - 1)) m ''out/ppt''))
                 (slides (create_slides_metadata (now env_slide3_raises) deck5 config0))))"
proof -
  have h: "create_directory_structure env_slide3_raises ''out'' = Inr ''out/ppt''"
    by (simp add: create_directory_structure_def env_slide3_raises_def env_ok_def path_join_def)
  have r: "fst (generate_ppt env_slide3_raises deck5 config0 ''out'')
             = Inr (projr (fst (generate_ppt env_slide3_raises deck5 config0 ''out'')))
         \<and> status (projr (fst (generate_ppt env_slide3_raises deck5 config0 ''out''))) = ''success''"
    by code_simp
  from manifest_not_recomputed [OF h refl, of deck5 config0] h r show ?thesis by blast
qed

text \<open>
  C1 as stated fails.  Five slides, rendering the third raises: the run succeeds with four
  slide files, but the manifest written to \<^verbatim>\<open>slides_metadata.json\<close> still has five entries,
  and the \<^verbatim>\<open>next\<close> of the second entry is the file of the third slide, which was never
  written, not the file of the fourth.
\<close>

theorem adjacency_not_recomputed_counterexample:
  "slide_files (projr (fst (generate_ppt env_slide3_raises deck5 config0 ''out''))) =
     Some [''out/ppt/slides/slide_01_cover.html'', ''out/ppt/slides/slide_02_toc.html'',
           ''out/ppt/slides/slide_04_content.html'', ''out/ppt/slides/slide_05_summary.html'']
   \<and> snd (generate_ppt env_slide3_raises deck5 config0 ''out'') ! 6 =
       (''out/ppt/data/slides_metadata.json'',
        Json (create_slides_metadata (now env_slide3_raises) deck5 config0))
   \<and> snd (generate_ppt env_slide3_raises deck5 config0 ''out'') ! 4 =
       (''out/ppt/index.html'',
        Rendered ''index.html'' (create_slides_metadata (now env_slide3_raises) deck5 config0))
   \<and> length (slides (create_slides_metadata (now env_slide3_raises) deck5 config0)) = 5
   \<and> next (slides (create_slides_metadata (now env_slide3_raises) deck5 config0) ! 1)
       = Some ''slide_03_chart.html''
   \<and> next (slides (create_slides_metadata (now env_slide3_raises) deck5 config0) ! 1)
       \<noteq> Some ''slide_04_content.html''"
  by code_simp

text \<open>
  C2, as the code has it.  \<^verbatim>\<open>generate_ppt\<close> reports \<^verbatim>\<open>error\<close> exactly when creating the
  directories or saving the metadata raises; the outcome of the slides plays no part, so a
  run in which no slide is generated is still a \<^verbatim>\<open>success\<close>.  Otherwise it reports
  \<^verbatim>\<open>success\<close> with the files of all slides that were generated: there is one result per
  slide, each decided by its own slide only, and the returned list keeps every result that
  is not an exception, in order.
\<close>

theorem unit_failures_do_not_fail_the_assembly:
  assumes dir: "dir = path_join out ''ppt''"
    and md: "md = create_slides_metadata (now e) sd cfg"
    and results: "results = gather_slides e sd md dir"
  shows "\<exists>r. fst (generate_ppt e sd cfg out) = Inr r
       \<and> (status r = ''error'' \<longleftrightarrow>
            isl (create_directory_structure e out) \<or> isl (save_metadata e md dir))
       \<and> (status r \<noteq> ''error'' \<longrightarrow>
            status r = ''success'' \<and> slide_files r = Some (generate_all_slides e sd md dir))
       \<and> length results = length sd
       \<and> (\<forall>i < length sd. results ! i = generate_single_slide e (sd ! i) (slide_meta_at sd i) dir)
       \<and> generate_all_slides e sd md dir = map projr (filter (\<lambda>x. \<not> isl x) results)"
proof -
  have l: "length results = length sd" by (simp add: results gather_slides_def)
  have n: "\<forall>i < length sd. results ! i = generate_single_slide e (sd ! i) (slide_meta_at sd i) dir"
    by (simp add: results md gather_slides_eq)
  have k: "generate_all_slides e sd md dir = map projr (filter (\<lambda>x. \<not> isl x) results)"
    unfolding generate_all_slides_def results by (rule keep_paths_filter)
  show ?thesis
  proof (cases "create_directory_structure e out")
    case (Inl x)
    then show ?thesis using l n k by (simp add: generate_ppt_def generate_ppt_try_cases)
  next
    case (Inr dir')
    then have dd: "dir' = dir" using dir by (simp add: create_directory_structure_dir)
    show ?thesis
    proof (cases "save_metadata e md dir")
      case (Inl x)
      with Inr dd md show ?thesis using l n k by (simp add: generate_ppt_def generate_ppt_try_cases)
    next
      case Inr2: (Inr w)
      with Inr dd md results show ?thesis using l n k
        by (simp add: generate_ppt_def generate_ppt_try_cases)
    qed
  qed
qed

theorem unit_failures_do_not_fail_the_assembly_witness:
  "\<exists>r. fst (generate_ppt env_slide3_raises deck5 config0 ''out'') = Inr r
     \<and> status r = ''success''
     \<and> slide_files r = Some (generate_all_slides env_slide3_raises deck5
            (create_slides_metadata (now env_slide3_raises) deck5 config0)
            (path_join ''out'' ''ppt''))
     \<and> length (gather_slides env_slide3_raises deck5
            (create_slides_metadata (now env_slide3_raises) deck5 config0)
            (path_join ''out'' ''ppt'')) = length deck5"
proof -
  have n: "\<not> (isl (create_directory_structure env_slide3_raises ''out'')
             \<or> isl (save_metadata env_slide3_raises
                      (create_slides_metadata (now env_slide3_raises) deck5 config0)
                      (path_join ''out'' ''ppt'')))"
    by code_simp
  from unit_failures_do_not_fail_the_assembly
         [OF refl refl refl, of env_slide3_raises deck5 config0 "''out''"] n
  show ?thesis by blast
qed

text \<open>
  C2 as stated fails.  All five slides are generated, then saving the metadata raises:
  the run is reported as \<^verbatim>\<open>error\<close> although five units succeeded.
\<close>

theorem error_with_all_units_generated_counterexample:
  "generate_all_slides env_save_raises deck5
     (create_slides_metadata (now env_save_raises) deck5 config0) ''out/ppt'' =
     [''out/ppt/slides/slide_01_cover.html'', ''out/ppt/slides/slide_02_toc.html'',
      ''out/ppt/slides/slide_03_chart.html'', ''out/ppt/slides/slide_04_content.html'',
      ''out/ppt/slides/slide_05_summary.html'']
   \<and> fst (generate_ppt env_save_raises deck5 config0 ''out'') =
       Inr \<lparr> status = ''error'', error = Some ''No space left on device'', ppt_dir = None,
              res_total_slides = None, slide_files = None,
              index_page = None, presenter_page = None \<rparr>"
  by code_simp

subsection \<open>The default designs\<close>

lemma get_default_design_eq:
  "get_default_design style =
     Inr (if style = ''ted'' then ted_design
          else if style = ''business'' then business_design
          else if style = ''simple'' then simple_design
          else business_design)"
  by (simp add: get_default_design_def default_designs_def)


text \<open>
  C9, as the code has it.  \<^verbatim>\<open>default_designs\<close> has a record for \<^verbatim>\<open>ted\<close>, \<^verbatim>\<open>business\<close> and
  \<^verbatim>\<open>simple\<close>, pairwise different, and the fallback returns it for that tag; for every
  other tag, the known tags \<^verbatim>\<open>academic\<close> and \<^verbatim>\<open>creative\<close> included, it returns the record
  of \<^verbatim>\<open>business\<close>, which is the generic default.
\<close>

theorem default_design_by_style:
  "map fst default_designs = [''ted'', ''business'', ''simple'']
   \<and> get_default_design ''ted'' = Inr ted_design
   \<and> get_default_design ''business'' = Inr business_design
   \<and> get_default_design ''simple'' = Inr simple_design
   \<and> get_default_design style =
       Inr (if style = ''ted'' then ted_design
            else if style = ''simple'' then simple_design
            else business_design)
   \<and> distinct [ted_design, business_design, simple_design]"
  by (simp add: get_default_design_eq default_designs_def ted_design_def business_design_def simple_design_def)


text \<open>
  C9 as stated fails.  \<^verbatim>\<open>academic\<close> and \<^verbatim>\<open>creative\<close> are style tags of the coordinator but
  have no record of their own: the fallback gives them the record of \<^verbatim>\<open>business\<close>, the same
  as for an unknown tag.
\<close>

theorem academic_and_creative_share_default_counterexample:
  "''academic'' \<in> set style_guide_tags \<and> ''creative'' \<in> set style_guide_tags
   \<and> map_of default_designs ''academic'' = None
   \<and> map_of default_designs ''creative'' = None
   \<and> get_default_design ''academic'' = get_default_design ''business''
   \<and> get_default_design ''creative'' = get_default_design ''business''
   \<and> get_default_design ''academic'' = get_default_design ''no such style''"
  by (simp add: get_default_design_eq default_designs_def style_guide_tags_def)

subsection \<open>generate_design_spec\<close>

lemma default_designs_ok: "design_ok ted_design" "design_ok business_design" "design_ok simple_design"
  by (simp_all add: design_ok_def is_hex_color_def is_hex_digit_def
        ted_design_def business_design_def simple_design_def)

lemma generate_design_spec_text:
  "generate_design_spec loads (Inr (PyStr c)) style =
     (case parse_design loads (clean_design_content (strip c)) of
        Inr d \<Rightarrow> Inr d
      | Inl x \<Rightarrow> get_default_design style)"
  by (simp add: generate_design_spec_def get_content_def py_strip_def)


text \<open>
  C4, as the code has it.  The design taken from the defaults has six hex colours and five
  chart colours, and it is what \<^verbatim>\<open>generate_design_spec\<close> returns whenever decoding or
  validating the reply fails.  A design decoded from the reply is returned as it is: the
  model's strings and list, with no check of the colour format or the palette length.
\<close>

theorem fallback_designs_satisfy_invariant:
  "\<exists>d. get_default_design style = Inr d \<and> design_ok d
     \<and> (\<forall>loads c. isl (parse_design loads (clean_design_content (strip c))) \<longrightarrow>
           generate_design_spec loads (Inr (PyStr c)) style = Inr d)
     \<and> (\<forall>loads c d'. parse_design loads (clean_design_content (strip c)) = Inr d' \<longrightarrow>
           generate_design_spec loads (Inr (PyStr c)) style = Inr d')"
proof -
  obtain d where d: "get_default_design style = Inr d" and ok: "design_ok d"
    using default_designs_ok by (auto simp: get_default_design_eq)
  have 1: "\<forall>loads c. isl (parse_design loads (clean_design_content (strip c))) \<longrightarrow>
           generate_design_spec loads (Inr (PyStr c)) style = Inr d"
    using d by (auto simp: generate_design_spec_text isl_def)
  have 2: "\<forall>loads c d'. parse_design loads (clean_design_content (strip c)) = Inr d' \<longrightarrow>
           generate_design_spec loads (Inr (PyStr c)) style = Inr d'"
    by (simp add: generate_design_spec_text)
  from d ok 1 2 show ?thesis by blast
qed

theorem fallback_designs_satisfy_invariant_witness:
  "isl (parse_design json_loads (clean_design_content (strip ''not json at all'')))
   \<and> generate_design_spec json_loads (Inr (PyStr ''not json at all'')) ''ted'' = Inr ted_design
   \<and> design_ok ted_design"
proof -
  have h: "isl (parse_design json_loads (clean_design_content (strip ''not json at all'')))"
    by code_simp
  have t: "get_default_design ''ted'' = Inr ted_design" by (simp add: get_default_design_eq)
  from fallback_designs_satisfy_invariant [of "''ted''"] h t show ?thesis by auto
qed


text \<open>
  C4 as stated fails.  A reply with the colour \<^verbatim>\<open>red\<close> and three chart colours is valid for
  \<^verbatim>\<open>DesignSpec\<close> and is returned.
\<close>

theorem parsed_design_unchecked_counterexample:
  "generate_design_spec json_loads (Inr (PyStr design_text_named_colors)) ''ted''
     = Inr named_colors_design
   \<and> primary_color named_colors_design = ''red''
   \<and> \<not> is_hex_color (primary_color named_colors_design)
   \<and> length (chart_colors named_colors_design) = 3
   \<and> \<not> design_ok named_colors_design"
  by code_simp

text \<open>
  C3 fails on the code.  The content of the reply is read and stripped before the \<^verbatim>\<open>try\<close>:
  when the provider's message has no text, the content is \<^verbatim>\<open>None\<close>, \<^verbatim>\<open>.strip()\<close> raises
  \<^verbatim>\<open>AttributeError\<close>, and the exception leaves \<^verbatim>\<open>generate_design_spec\<close>.
\<close>

theorem none_content_raises:
  "generate_design_spec json_loads (Inr PyNone) ''business'' = Inl none_has_no_strip"
  by (simp add: generate_design_spec_def get_content_def py_strip_def)


text \<open>
  From the reply on, a content that is a string does give a design, whatever the text.
  This is about the part of the method that is modelled: the prompt was built and the
  call returned.
\<close>

lemma generate_design_spec_total_on_text:
  "\<exists>d. generate_design_spec loads (Inr (PyStr c)) style = Inr d"
  by (cases "parse_design loads (clean_design_content (strip c))")
     (simp_all add: generate_design_spec_text get_default_design_eq)

subsection \<open>Code block markers\<close>

lemma dropWhile_space_prefix:
  "list_all py_isspace a \<Longrightarrow> dropWhile py_isspace (a @ r) = dropWhile py_isspace r"
proof -
  assume "list_all py_isspace a"
  then have "\<And>x. x \<in> set a \<Longrightarrow> py_isspace x" by (simp add: list_all_iff)
  then show ?thesis by (rule dropWhile_append2)
qed

lemma strip_core:
  assumes "y \<noteq> []" "\<not> py_isspace (hd y)" "\<not> py_isspace (last y)"
    and a: "list_all py_isspace a" and b: "list_all py_isspace b"
  shows "strip (a @ y @ b) = y"
proof -
  have "dropWhile py_isspace (a @ y @ b) = dropWhile py_isspace (y @ b)"
    using a by (rule dropWhile_space_prefix)
  also have "\<dots> = y @ b" using assms(1,2) by (cases y) simp_all
  finally have 1: "dropWhile py_isspace (a @ y @ b) = y @ b" .
  have rb: "list_all py_isspace (rev b)" using b by (simp add: list_all_iff)
  have "dropWhile py_isspace (rev b @ rev y) = dropWhile py_isspace (rev y)"
    using rb by (rule dropWhile_space_prefix)
  also have "\<dots> = rev y"
  proof -
    have "rev y \<noteq> []" using assms(1) by simp
    moreover have "hd (rev y) = last y" using assms(1) by (simp add: hd_rev)
    ultimately show ?thesis using assms(3) by (simp add: dropWhile_eq_self_iff)
  qed
  finally show ?thesis using 1 by (simp add: strip_def)
qed

lemma strip_all_space: "list_all py_isspace a \<Longrightarrow> strip a = []"
proof -
  assume a: "list_all py_isspace a"
  then have "dropWhile py_isspace a = []" by (induction a) simp_all
  then show ?thesis by (simp only: strip_def rev.simps dropWhile.simps)
qed

lemma strip_fixed_ends:
  assumes "strip p = p" "p \<noteq> []"
  shows "\<not> py_isspace (hd p) \<and> \<not> py_isspace (last p)"
proof -
  let ?q = "dropWhile py_isspace p"
  have l1: "length (rev (dropWhile py_isspace (rev ?q))) \<le> length ?q"
    using length_dropWhile_le [of py_isspace "rev ?q"] by simp
  have l2: "length ?q \<le> length p" by (rule length_dropWhile_le)
  from assms(1) have "length (rev (dropWhile py_isspace (rev ?q))) = length p"
    by (simp add: strip_def)
  with l1 l2 have e: "length ?q = length p" by simp
  have q: "?q = p"
  proof -
    have "takeWhile py_isspace p @ ?q = p" by simp
    then have "length (takeWhile py_isspace p) + length ?q = length p"
      by (metis length_append)
    with e have "takeWhile py_isspace p = []" by simp
    then show ?thesis by (metis append_Nil takeWhile_dropWhile_id)
  qed
  then have h: "\<not> py_isspace (hd p)" using assms(2) by (metis hd_dropWhile)
  from assms(1) q have "rev (dropWhile py_isspace (rev p)) = p" by (simp add: strip_def)
  then have "dropWhile py_isspace (rev p) = rev p" by (metis rev_rev_ident)
  then have "\<not> py_isspace (hd (rev p))" using assms(2) by (metis hd_dropWhile rev_is_Nil_conv)
  then have "\<not> py_isspace (last p)" using assms(2) by (simp add: hd_rev)
  with h show ?thesis by simp
qed

lemma strip_padded:
  assumes "strip p = p" "list_all py_isspace a" "list_all py_isspace b"
  shows "strip (a @ p @ b) = p"
proof (cases "p = []")
  case True
  then show ?thesis using assms(2,3) strip_all_space [of "a @ b"] by simp
next
  case False
  with assms(1) have "\<not> py_isspace (hd p) \<and> \<not> py_isspace (last p)" by (rule strip_fixed_ends)
  with False assms(2,3) show ?thesis by (simp add: strip_core)
qed

lemma space_not_backtick: "py_isspace c \<Longrightarrow> c \<noteq> CHR ''`''"
  by (auto simp: py_isspace_def)

lemma startswith_append: "startswith (x @ r) x"
  by (simp add: startswith_def)

lemma endswith_append: "endswith (r @ x) x"
  by (simp add: endswith_def suffix_def)

lemma drop_last_append: "drop_last (length x) (r @ x) = r"
  by (simp add: drop_last_def)

lemma space_head_no_fence:
  "w \<noteq> [] \<Longrightarrow> list_all py_isspace w \<Longrightarrow> \<not> startswith (w @ r) (CHR ''`'' # f)"
  by (cases w) (auto simp: startswith_def dest: space_not_backtick)

lemma fence_ends: "\<not> py_isspace (CHR ''`'')"
  by (simp add: py_isspace_def)

text \<open>The content between the markers, for both cleaning functions.\<close>

lemma clean_fenced:
  assumes f: "fence = ''```json'' \<or> fence = ''```''"
    and w2: "ws2 \<noteq> []" "list_all py_isspace ws2" and w3: "list_all py_isspace ws3"
    and p: "strip p = p"
  shows "clean_fallback_content (fence @ ws2 @ p @ ws3 @ ''```'') = p"
    and "clean_design_content (fence @ ws2 @ p @ ws3 @ ''```'') = p"
proof -
  let ?r = "ws2 @ p @ ws3 @ ''```''"
  have n3: "\<not> startswith ?r ''```''" using space_head_no_fence [OF w2] by simp
  have n7: "\<not> startswith (''```'' @ ?r) ''```json''"
  proof
    assume "startswith (''```'' @ ?r) ''```json''"
    then have "prefix ''json'' ?r" by (simp add: startswith_def)
    then have "hd ?r = CHR ''j''" using w2(1) by (cases ws2) simp_all
    moreover have "py_isspace (hd ?r)" using w2 by (cases ws2) simp_all
    ultimately show False by (simp add: py_isspace_def)
  qed
  have e: "endswith ?r ''```''" using endswith_append [of "ws2 @ p @ ws3" "''```''"] by simp
  have d: "drop_last 3 ?r = ws2 @ p @ ws3" by (simp add: drop_last_def)
  have s: "strip (ws2 @ p @ ws3) = p" using p w2(2) w3 by (rule strip_padded)
  from f show "clean_fallback_content (fence @ ws2 @ p @ ws3 @ ''```'') = p"
  proof
    assume "fence = ''```json''"
    then have "fence @ ws2 @ p @ ws3 @ ''```'' = ''```json'' @ ?r" by simp
    moreover have "startswith (''```json'' @ ?r) ''```json''" by (rule startswith_append)
    moreover have "drop 7 (''```json'' @ ?r) = ?r" by simp
    ultimately show ?thesis using n3 e d s by (simp only: clean_fallback_content_def Let_def if_True if_False)
  next
    assume "fence = ''```''"
    then have "fence @ ws2 @ p @ ws3 @ ''```'' = ''```'' @ ?r" by simp
    moreover have "startswith (''```'' @ ?r) ''```''" by (rule startswith_append)
    moreover have "drop 3 (''```'' @ ?r) = ?r" by simp
    ultimately show ?thesis using n7 e d s by (simp only: clean_fallback_content_def Let_def if_True if_False)
  qed
  from f show "clean_design_content (fence @ ws2 @ p @ ws3 @ ''```'') = p"
  proof
    assume "fence = ''```json''"
    then have "fence @ ws2 @ p @ ws3 @ ''```'' = ''```json'' @ ?r" by simp
    moreover have "startswith (''```json'' @ ?r) ''```json''" by (rule startswith_append)
    moreover have "drop 7 (''```json'' @ ?r) = ?r" by simp
    ultimately show ?thesis using e d s by (simp only: clean_design_content_def Let_def if_True if_False)
  next
    assume "fence = ''```''"
    then have "fence @ ws2 @ p @ ws3 @ ''```'' = ''```'' @ ?r" by simp
    moreover have "startswith (''```'' @ ?r) ''```''" by (rule startswith_append)
    moreover have "drop 3 (''```'' @ ?r) = ?r" by simp
    ultimately show ?thesis using n7 e d s by (simp only: clean_design_content_def Let_def if_True if_False)
  qed
qed

lemma clean_bare:
  assumes p: "strip p = p" and ns: "\<not> startswith p ''```''" and ne: "\<not> endswith p ''```''"
  shows "clean_fallback_content p = p" and "clean_design_content p = p"
proof -
  have n7: "\<not> startswith p ''```json''"
  proof
    assume "startswith p ''```json''"
    then have "prefix (''```'' @ ''json'') p" by (simp add: startswith_def)
    then have "prefix ''```'' p" by (rule append_prefixD)
    with ns show False by (simp add: startswith_def)
  qed
  show "clean_fallback_content p = p" using n7 ns ne p by (simp add: clean_fallback_content_def)
  show "clean_design_content p = p" using n7 ns ne p by (simp add: clean_design_content_def)
qed

lemma strip_fenced:
  assumes f: "fence = ''```json'' \<or> fence = ''```''"
    and w1: "list_all py_isspace ws1" and w4: "list_all py_isspace ws4"
  shows "strip (ws1 @ fence @ ws2 @ p @ ws3 @ ''```'' @ ws4) = fence @ ws2 @ p @ ws3 @ ''```''"
proof -
  let ?y = "fence @ ws2 @ p @ ws3 @ ''```''"
  have y: "?y \<noteq> []" by simp
  have h: "hd ?y = CHR ''`''" using f by auto
  have l: "last ?y = CHR ''`''" by simp
  have "strip (ws1 @ ?y @ ws4) = ?y"
    using y _ _ w1 w4 by (rule strip_core) (simp_all only: h l fence_ends not_False_eq_True)
  then show ?thesis by simp
qed

text \<open>
  C6 as stated fails.  With a sentence before the fenced block and one after it, no marker
  stands at the start or the end of the content, nothing is removed, and decoding raises:
  \<^verbatim>\<open>_fallback_structured_response\<close> lets the \<^verbatim>\<open>JSONDecodeError\<close> through, and
  \<^verbatim>\<open>generate_design_spec\<close> returns the default design instead of the one in the block.  The
  bare payload decodes in both.
\<close>

theorem prose_wrapped_does_not_parse_counterexample:
  "fallback_structured_response json_loads (None :: (json \<Rightarrow> py_exception + unit) option)
       (Inr (PyStr small_payload))
     = Inr (Inl (JObject [(''title'', JString ''Q3 review''), (''pages'', JInt 3)]))
   \<and> fallback_structured_response json_loads (None :: (json \<Rightarrow> py_exception + unit) option)
       (Inr (PyStr (prose_wrapped small_payload)))
     = Inl (JSONDecodeError ''invalid JSON'')
   \<and> fallback_structured_response json_loads (Some DesignSpec_init)
       (Inr (PyStr design_text_named_colors)) = Inr (Inr named_colors_design)
   \<and> fallback_structured_response json_loads (Some DesignSpec_init)
       (Inr (PyStr (prose_wrapped design_text_named_colors))) = Inl (JSONDecodeError ''invalid JSON'')
   \<and> generate_design_spec json_loads (Inr (PyStr design_text_named_colors)) ''ted''
       = Inr named_colors_design
   \<and> generate_design_spec json_loads (Inr (PyStr (prose_wrapped design_text_named_colors))) ''ted''
       = Inr ted_design"
  by code_simp


text \<open>
  C6, as the code has it.  A reply that is only a fenced block (the opening marker
  \<^verbatim>\<open>```json\<close> or \<^verbatim>\<open>```\<close>, white space, the payload, optional white space, the closing
  marker), with white space but no prose around it, gives the same result as the bare
  payload, for every decoder and every target record.  The payload is stripped and does
  not itself begin or end with a marker.
\<close>

theorem fenced_response_parses_as_bare:
  assumes f: "fence = ''```json'' \<or> fence = ''```''"
    and w1: "list_all py_isspace ws1"
    and w2: "ws2 \<noteq> []" "list_all py_isspace ws2"
    and w3: "list_all py_isspace ws3"
    and w4: "list_all py_isspace ws4"
    and p: "strip payload = payload" "\<not> startswith payload ''```''" "\<not> endswith payload ''```''"
  shows "fallback_structured_response loads response_model
           (Inr (PyStr (ws1 @ fence @ ws2 @ payload @ ws3 @ ''```'' @ ws4)))
         = fallback_structured_response loads response_model (Inr (PyStr payload))
       \<and> generate_design_spec loads (Inr (PyStr (ws1 @ fence @ ws2 @ payload @ ws3 @ ''```'' @ ws4))) style
         = generate_design_spec loads (Inr (PyStr payload)) style"
proof -
  have s: "strip (ws1 @ fence @ ws2 @ payload @ ws3 @ ''```'' @ ws4)
             = fence @ ws2 @ payload @ ws3 @ ''```''"
    using f w1 w4 by (rule strip_fenced)
  note c = clean_fenced [OF f w2 w3 p(1)]
  note b = clean_bare [OF p]
  show ?thesis
    by (simp only: fallback_structured_response_def generate_design_spec_def
          get_content_def py_strip_def py_content.case option.case sum.case s c b p(1))
qed

theorem fenced_response_parses_as_bare_witness:
  "fallback_structured_response json_loads (Some DesignSpec_init)
      (Inr (PyStr (''\<newline>'' @ ''```json'' @ ''\<newline>'' @ design_text_named_colors @ ''\<newline>'' @ ''```'' @ ''\<newline>'')))
    = fallback_structured_response json_loads (Some DesignSpec_init)
        (Inr (PyStr design_text_named_colors))"
proof -
  have sp: "list_all py_isspace ''\<newline>''" by (simp add: py_isspace_def)
  have p1: "strip design_text_named_colors = design_text_named_colors" by code_simp
  have p2: "\<not> startswith design_text_named_colors ''```''" by code_simp
  have p3: "\<not> endswith design_text_named_colors ''```''" by code_simp
  from fenced_response_parses_as_bare [of "''```json''" "''\<newline>''" "''\<newline>''" "''\<newline>''" "''\<newline>''"
         design_text_named_colors json_loads "Some DesignSpec_init" "''ted''"] sp p1 p2 p3
  show ?thesis by simp
qed

subsection \<open>generate_page_html\<close>

text \<open>
  C7 as stated fails.  The page call returns its HTML, speech notes are requested, and the
  call for the notes raises: the exception leaves \<^verbatim>\<open>generate_page_html\<close>, and no result
  with the content is returned.
\<close>

theorem narration_failure_fails_the_unit_counterexample:
  "generate_page_html (Inr (PyStr ''<div>Hello</div>'')) (Inl (Exception ''Request timed out''))
     keynote_context = Inl (Exception ''Request timed out'')
   \<and> generate_page_html (Inr (PyStr ''<div>Hello</div>'')) (Inl (Exception ''Request timed out''))
     keynote_context \<noteq> Inr \<lparr> html_content = ''<div>Hello</div>'', speech_notes = None \<rparr>"
  by code_simp

text \<open>
  C7, as the code has it.  When the page call returns a text and speech notes are requested,
  the call for the notes decides the unit: an exception it raises leaves
  \<^verbatim>\<open>generate_page_html\<close>, and a text it returns is stored, stripped, beside the content.
  The unit yields its content without notes exactly when no notes are requested.
\<close>

theorem narration_outcome_decides_the_unit:
  assumes main: "reply = Inr (PyStr text)"
  shows "(truthy (speech_scene global_context) \<longrightarrow>
            (\<forall>x. generate_page_html reply (Inl x) global_context = Inl x)
          \<and> (\<forall>notes. generate_page_html reply (Inr (PyStr notes)) global_context =
                Inr \<lparr> html_content = strip (clean_html (strip text)),
                      speech_notes = Some (strip notes) \<rparr>))
       \<and> (\<not> truthy (speech_scene global_context) \<longrightarrow>
            generate_page_html reply speech_reply global_context =
              Inr \<lparr> html_content = strip (clean_html (strip text)), speech_notes = None \<rparr>)"
  by (simp add: main generate_page_html_def generate_speech_notes_def get_content_def
        py_strip_def Let_def)

theorem narration_outcome_decides_the_unit_witness:
  "truthy (speech_scene keynote_context)
   \<and> generate_page_html (Inr (PyStr ''<div>Hello</div>'')) (Inl (Exception ''Request timed out''))
        keynote_context = Inl (Exception ''Request timed out'')
   \<and> generate_page_html (Inr (PyStr ''<div>Hello</div>'')) (Inr (PyStr '' Welcome. ''))
        keynote_context =
        Inr \<lparr> html_content = strip (clean_html (strip ''<div>Hello</div>'')),
              speech_notes = Some (strip '' Welcome. '') \<rparr>"
proof -
  have t: "truthy (speech_scene keynote_context)" by (simp add: truthy_def keynote_context_def)
  from narration_outcome_decides_the_unit [OF refl, of keynote_context "''<div>Hello</div>''"] t
  show ?thesis by blast
qed

subsection \<open>generate_document_task\<close>

lemma reported_progress_append [simp]:
  "reported_progress (es @ fs) = reported_progress es @ reported_progress fs"
  by (induction es rule: reported_progress.induct) simp_all

lemma steps_ok_Nil: "(\<And>s. P s \<Longrightarrow> Q s) \<Longrightarrow> steps_ok P [] Q R"
  by (simp add: steps_ok_def)

lemma steps_ok_Cons: "step_ok P f M R \<Longrightarrow> steps_ok M fs Q R \<Longrightarrow> steps_ok P (f # fs) Q R"
  unfolding step_ok_def steps_ok_def
proof (intro allI impI)
  fix s assume a: "\<forall>s. P s \<longrightarrow> (case f s of (None, s') \<Rightarrow> M s' | (Some x, s') \<Rightarrow> R s')"
    and b: "\<forall>s. M s \<longrightarrow> (case run_steps fs s of (None, s') \<Rightarrow> Q s' | (Some x, s') \<Rightarrow> R s')"
    and p: "P s"
  obtain r s' where f: "f s = (r, s')" by (cases "f s")
  show "case run_steps (f # fs) s of (None, s') \<Rightarrow> Q s' | (Some x, s') \<Rightarrow> R s'"
  proof (cases r)
    case None
    with a p f have "M s'" by auto
    with b have "case run_steps fs s' of (None, s') \<Rightarrow> Q s' | (Some x, s') \<Rightarrow> R s'" by simp
    with f None show ?thesis by simp
  next
    case (Some x)
    with a p f have "R s'" by auto
    with f Some show ?thesis by simp
  qed
qed

lemma steps_okD:
  assumes "steps_ok P fs Q R" "P s" "run_steps fs s = (r, s')"
  shows "(r = None \<longrightarrow> Q s') \<and> (r \<noteq> None \<longrightarrow> R s')"
proof -
  from assms(1,2) have "case run_steps fs s of (None, s') \<Rightarrow> Q s' | (Some x, s') \<Rightarrow> R s'"
    by (simp add: steps_ok_def)
  with assms(3) show ?thesis by (cases r) simp_all
qed

lemma inv_at: "progress_inv k s \<Longrightarrow> at_checkpoint s"
  by (auto simp: at_checkpoint_def)

text \<open>Steps that leave the progress and the reported values as they are.\<close>

lemma set_status_ok: "step_ok (progress_inv k) (set_status v) (progress_inv k) at_checkpoint"
  by (simp add: step_ok_def set_status_def progress_inv_def)

lemma set_error_message_ok:
  "step_ok (progress_inv k) (set_error_message v) (progress_inv k) at_checkpoint"
  by (simp add: step_ok_def set_error_message_def progress_inv_def)

lemma set_output_path_ok: "step_ok (progress_inv k) set_output_path (progress_inv k) at_checkpoint"
  by (simp add: step_ok_def set_output_path_def progress_inv_def)

lemma extern_ok: "step_ok (progress_inv k) (extern r) (progress_inv k) at_checkpoint"
  by (cases r) (simp_all add: step_ok_def extern_def inv_at)

lemma search_ok: "step_ok (progress_inv k) (search e) (progress_inv k) at_checkpoint"
  by (cases "search_reply e") (auto simp: step_ok_def search_def progress_inv_def at_checkpoint_def)

lemma check_search_ok: "step_ok (progress_inv k) check_search (progress_inv k) at_checkpoint"
  by (auto simp: step_ok_def check_search_def inv_at split: option.splits)

lemma find_output_ok: "step_ok (progress_inv k) (find_output e) (progress_inv k) at_checkpoint"
proof -
  have "fst (find_output e s) \<noteq> None \<longrightarrow> snd (find_output e s) = s" for s
    by (simp add: find_output_def Let_def split: option.splits)
  moreover have "progress_inv k s \<Longrightarrow> progress_inv k (snd (find_output e s))" for s
    by (simp add: find_output_def Let_def progress_inv_def split: option.splits)
  ultimately show ?thesis
    unfolding step_ok_def
    by (metis (mono_tags, lifting) case_prod_beta inv_at option.case_eq_if)
qed

lemma send_completion_ok:
  "step_ok (progress_inv k) send_completion_notification (progress_inv k) at_checkpoint"
  by (simp add: step_ok_def send_completion_notification_def progress_inv_def)

lemma send_error_ok:
  "step_ok (progress_inv k) (send_error_notification m) (progress_inv k) at_checkpoint"
  by (simp add: step_ok_def send_error_notification_def progress_inv_def)

text \<open>Steps that report the current progress.\<close>

lemma commit_ok: "step_ok (progress_inv k) (commit e) (progress_inv k) at_checkpoint"
  by (auto simp: step_ok_def commit_def Let_def progress_inv_def at_checkpoint_def sorted_append
           split: option.splits)

lemma send_progress_ok:
  "step_ok (progress_inv k) (send_progress_update k st m) (progress_inv k) at_checkpoint"
  by (auto simp: step_ok_def send_progress_update_def progress_inv_def sorted_append)

text \<open>Steps that move the progress to the next checkpoint.\<close>

lemma set_progress_ok:
  "k \<le> n \<Longrightarrow> n \<in> checkpoints \<Longrightarrow>
   step_ok (progress_inv k) (set_progress n) (progress_inv n) at_checkpoint"
  by (auto simp: step_ok_def set_progress_def progress_inv_def)

lemma first_status_ok:
  "step_ok (\<lambda>s. events s = []) (set_status v) (\<lambda>s. events s = []) at_checkpoint"
  by (simp add: step_ok_def set_status_def)

lemma first_progress_ok:
  "n \<in> checkpoints \<Longrightarrow> step_ok (\<lambda>s. events s = []) (set_progress n) (progress_inv n) at_checkpoint"
  by (simp add: step_ok_def set_progress_def progress_inv_def)

lemmas step_rules =
  set_status_ok set_error_message_ok set_output_path_ok extern_ok search_ok check_search_ok
  find_output_ok send_completion_ok send_error_ok commit_ok send_progress_ok

lemma task_body_ok: "steps_ok (\<lambda>s. events s = []) (task_body e) at_checkpoint at_checkpoint"
  unfolding task_body_def
  apply (rule steps_ok_Cons, rule first_status_ok)
  apply (rule steps_ok_Cons, rule first_progress_ok, simp add: checkpoints_def)
  apply (rule steps_ok_Cons, rule step_rules)+
  apply (rule steps_ok_Cons, rule set_progress_ok [of 0 10], simp, simp add: checkpoints_def)
  apply (rule steps_ok_Cons, rule step_rules)+
  apply (rule steps_ok_Cons, rule set_progress_ok [of 10 20], simp, simp add: checkpoints_def)
  apply (rule steps_ok_Cons, rule step_rules)+
  apply (rule steps_ok_Cons, rule set_progress_ok [of 20 60], simp, simp add: checkpoints_def)
  apply (rule steps_ok_Cons, rule step_rules)+
  apply (rule steps_ok_Cons, rule set_progress_ok [of 60 80], simp, simp add: checkpoints_def)
  apply (rule steps_ok_Cons, rule step_rules)+
  apply (rule steps_ok_Cons, rule set_progress_ok [of 80 100], simp, simp add: checkpoints_def)
  apply (rule steps_ok_Cons, rule step_rules)+
  apply (rule steps_ok_Nil, erule inv_at)
  done

lemma task_handler_ok: "steps_ok (progress_inv k) (task_handler e x) at_checkpoint at_checkpoint"
  unfolding task_handler_def
  apply (rule steps_ok_Cons, rule step_rules)+
  apply (rule steps_ok_Nil, erule inv_at)
  done

lemma at_checkpoint_events:
  "at_checkpoint s \<Longrightarrow>
     sorted (reported_progress (events s)) \<and> set (reported_progress (events s)) \<subseteq> checkpoints"
  by (auto simp: at_checkpoint_def progress_inv_def)

text \<open>
  C5.  In every run of the task, whatever raises and wherever, the progress values it
  stores and sends form a non-decreasing sequence of integers between 0 and 100, each one
  of the checkpoints 0, 10, 20, 60, 80, 100.  The failure path stores the progress reached
  and sends none.
\<close>

theorem progress_is_monotone:
  "sorted (reported_progress (snd (generate_document_task e)))
   \<and> set (reported_progress (snd (generate_document_task e))) \<subseteq> {0, 10, 20, 60, 80, 100}
   \<and> set (reported_progress (snd (generate_document_task e))) \<subseteq> {0 .. 100}"
proof -
  have "sorted (reported_progress (snd (generate_document_task e)))
      \<and> set (reported_progress (snd (generate_document_task e))) \<subseteq> checkpoints"
  proof (cases "query_result e")
    case (Inl x)
    then show ?thesis by (simp add: generate_document_task_def)
  next
    case (Inr found)
    show ?thesis
    proof (cases found)
      case None
      with Inr show ?thesis by (simp add: generate_document_task_def)
    next
      case (Some p)
      let ?s0 = "\<lparr> the_project = p, commits = 0, events = [], search_res = None, output_path = None \<rparr>"
      obtain r s where run: "run_steps (task_body e) ?s0 = (r, s)" by (cases "run_steps (task_body e) ?s0")
      have "events ?s0 = []" by simp
      with task_body_ok [of e] have "(r = None \<longrightarrow> at_checkpoint s) \<and> (r \<noteq> None \<longrightarrow> at_checkpoint s)"
        using run by (rule steps_okD)
      then have s: "at_checkpoint s" by blast
      show ?thesis
      proof (cases r)
        case None
        with Inr Some run have "snd (generate_document_task e) = events s"
          by (simp add: generate_document_task_def)
        with s show ?thesis by (simp add: at_checkpoint_events)
      next
        case (Some x)
        obtain r' s' where h: "run_steps (task_handler e x) s = (r', s')"
          by (cases "run_steps (task_handler e x) s")
        from s obtain k where "progress_inv k s" by (auto simp: at_checkpoint_def)
        with task_handler_ok [of k e x]
        have "(r' = None \<longrightarrow> at_checkpoint s') \<and> (r' \<noteq> None \<longrightarrow> at_checkpoint s')"
          using h by (rule steps_okD)
        then have "at_checkpoint s'" by blast
        moreover from Inr \<open>found = Some p\<close> run Some h have "snd (generate_document_task e) = events s'"
          by (simp add: generate_document_task_def)
        ultimately show ?thesis by (simp add: at_checkpoint_events)
      qed
    qed
  qed
  then show ?thesis by (auto simp: checkpoints_def)
qed

theorem progress_is_monotone_witness:
  "reported_progress (snd (generate_document_task (env_good \<lparr> search_reply := Inr failed_search \<rparr>)))
     = [0, 0, 10, 10, 20, 20, 60, 60, 60]
   \<and> sorted (reported_progress
        (snd (generate_document_task (env_good \<lparr> search_reply := Inr failed_search \<rparr>))))"
proof -
  have e: "reported_progress
             (snd (generate_document_task (env_good \<lparr> search_reply := Inr failed_search \<rparr>)))
           = [0, 0, 10, 10, 20, 20, 60, 60, 60]"
    by code_simp
  from progress_is_monotone [of "env_good \<lparr> search_reply := Inr failed_search \<rparr>"] e
  show ?thesis by blast
qed

end
